theory Spec2Isabelle
  imports Main "HOL-Library.Sublist"
begin

section \<open>JavaScript built-ins used by the sources\<close>

text \<open>
  Strings are lists of characters. \<open>String.prototype.indexOf\<close> with a one-character
  needle returns the position of its first occurrence, or \<open>-1\<close>.
\<close>

fun indexOf :: "string \<Rightarrow> char \<Rightarrow> int" where
  "indexOf [] c = -1"
| "indexOf (x # xs) c =
     (if x = c then 0 else (let i = indexOf xs c in if i < 0 then -1 else i + 1))"

text \<open>
  \<open>String.prototype.slice(start, end)\<close>: a negative position counts from the end of the
  string, every position is clamped to \<open>[0, length]\<close>, and an empty range gives the
  empty string.
\<close>

definition relativeIndex :: "nat \<Rightarrow> int \<Rightarrow> nat" where
  "relativeIndex len i = (if i < 0 then nat (max (int len + i) 0) else min (nat i) len)"

definition slice :: "string \<Rightarrow> int \<Rightarrow> int \<Rightarrow> string" where
  "slice s a b =
     (let lo = relativeIndex (length s) a; hi = relativeIndex (length s) b
      in take (hi - lo) (drop lo s))"

definition sliceFrom :: "string \<Rightarrow> int \<Rightarrow> string" where
  "sliceFrom s a = drop (relativeIndex (length s) a) s"

definition startsWith :: "string \<Rightarrow> string \<Rightarrow> bool" where
  "startsWith s p = (take (length p) s = p)"

section \<open>api/SpecParser.ts\<close>

text \<open>
  \<open>RawField\<close> of api/CommonTypes: \<open>{ name: string, value: string[] }\<close>. The field
  \<open>value\<close> is called \<open>valueLines\<close> here.
\<close>

record RawField =
  name :: string
  valueLines :: "string list"

text \<open>
  The four helpers that SpecParser.ts imports from api/CommandUtils are not part of the
  sources at hand. The parser takes them as a parameter, so that every statement about
  the parser below holds for any implementation of the helpers.
\<close>

record CommandUtils =
  removeLeadingNewline :: "string \<Rightarrow> string"
  splitIntoLines :: "string \<Rightarrow> string list"
  removeIndent :: "string list \<Rightarrow> string list"
  splitIntoSections :: "string \<Rightarrow> string list"

definition parseRawField :: "CommandUtils \<Rightarrow> string \<Rightarrow> string list" where
  "parseRawField cu v = removeIndent cu (splitIntoLines cu (removeLeadingNewline cu v))"

text \<open>The callback that \<open>parseRawFields\<close> maps over the parts.\<close>

definition parseRawFieldsEntry :: "CommandUtils \<Rightarrow> string \<Rightarrow> RawField" where
  "parseRawFieldsEntry cu field =
     (let colPos = indexOf field (CHR '':'');
          nm = slice field 0 colPos;
          v = parseRawField cu (sliceFrom field (colPos + 2))
      in \<lparr>name = nm, valueLines = v\<rparr>)"

definition parseRawFields :: "CommandUtils \<Rightarrow> string list \<Rightarrow> RawField list" where
  "parseRawFields cu parts = map (parseRawFieldsEntry cu) parts"

definition excludeNonFields :: "string list \<Rightarrow> string list" where
  "excludeNonFields parts = filter (\<lambda>part. \<not> startsWith part ''#'' \<and> part \<noteq> '''') parts"

definition parseSpecOutput :: "CommandUtils \<Rightarrow> string \<Rightarrow> RawField list" where
  "parseSpecOutput cu v = parseRawFields cu (excludeNonFields (splitIntoSections cu v))"

subsection \<open>The helpers of api/CommandUtils\<close>

text \<open>
  Modelled from the spec: \<open>removeLeadingNewline\<close>, \<open>splitIntoLines\<close>, \<open>removeIndent\<close>
  and \<open>splitIntoSections\<close> of api/CommandUtils, which is not among the sources. The spec
  says that a spec block is split into named fields, that the value of a field has a
  leading newline removed, is split into lines, and has its indentation trimmed. Here a
  newline is the line feed, sections are separated by an empty line (two line feeds in
  a row), and the indentation of a line is one leading tab, which is how the
  version-control tool indents the lines of a field.
\<close>

definition newline :: char where
  "newline = CHR 0x0A"

definition tab :: char where
  "tab = CHR 0x09"

fun consHead :: "char \<Rightarrow> string list \<Rightarrow> string list" where
  "consHead c [] = [[c]]"
| "consHead c (l # ls) = (c # l) # ls"

fun splitLines :: "string \<Rightarrow> string list" where
  "splitLines [] = [[]]"
| "splitLines (c # cs) = (if c = newline then [] # splitLines cs else consHead c (splitLines cs))"

fun splitSections :: "string \<Rightarrow> string list" where
  "splitSections [] = [[]]"
| "splitSections [c] = [[c]]"
| "splitSections (a # b # cs) =
     (if a = newline \<and> b = newline then [] # splitSections cs
      else consHead a (splitSections (b # cs)))"

fun dropLeadingNewline :: "string \<Rightarrow> string" where
  "dropLeadingNewline [] = []"
| "dropLeadingNewline (c # cs) = (if c = newline then cs else c # cs)"

fun removeIndentLine :: "string \<Rightarrow> string" where
  "removeIndentLine [] = []"
| "removeIndentLine (c # cs) = (if c = tab then cs else c # cs)"

definition commandUtils :: CommandUtils where
  "commandUtils =
     \<lparr>removeLeadingNewline = dropLeadingNewline,
      splitIntoLines = splitLines,
      removeIndent = map removeIndentLine,
      splitIntoSections = splitSections\<rparr>"

text \<open>Joining lines with line feeds, the inverse of \<open>splitLines\<close>.\<close>

fun joinLines :: "string list \<Rightarrow> string" where
  "joinLines [] = []"
| "joinLines [l] = l"
| "joinLines (l # m # ls) = l @ newline # joinLines (m # ls)"

subsection \<open>The parser in the words of the spec\<close>

text \<open>
  The name of a field is the text of its section before the first colon, and its value
  is cut from the text that starts two characters after that colon.
\<close>

definition beforeFirstColon :: "string \<Rightarrow> string" where
  "beforeFirstColon s = takeWhile (\<lambda>c. c \<noteq> CHR '':'') s"

definition afterFirstColon :: "string \<Rightarrow> string" where
  "afterFirstColon s = drop (length (beforeFirstColon s) + 2) s"

definition fieldOfSection :: "CommandUtils \<Rightarrow> string \<Rightarrow> RawField" where
  "fieldOfSection cu s =
     \<lparr>name = beforeFirstColon s,
      valueLines =
        removeIndent cu (splitIntoLines cu (removeLeadingNewline cu (afterFirstColon s)))\<rparr>"

subsection \<open>An example spec\<close>

definition exampleSpec :: string where
  "exampleSpec =
     ''# A changelist spec'' @ [newline, newline] @
     ''Change:'' @ [tab] @ ''42'' @ [newline, newline] @
     ''Description:'' @ [newline, tab] @ ''fix it'' @ [newline, tab] @ ''now'' @ [newline, newline]"

text \<open>Joining sections with empty lines, the inverse of \<open>splitSections\<close>.\<close>

fun joinSections :: "string list \<Rightarrow> string" where
  "joinSections [] = []"
| "joinSections [s] = s"
| "joinSections (s # t # ss) = s @ newline # newline # joinSections (t # ss)"

section \<open>More JavaScript built-ins\<close>

text \<open>
  Reading an array at an index that is out of range gives \<open>undefined\<close>, here \<open>None\<close>.
\<close>

definition elementAt :: "'a list \<Rightarrow> int \<Rightarrow> 'a option" where
  "elementAt xs i = (if 0 \<le> i \<and> i < int (length xs) then Some (xs ! nat i) else None)"

text \<open>\<open>Array.prototype.findIndex\<close>: the first position that satisfies the test, or \<open>-1\<close>.\<close>

fun findIndex :: "('a \<Rightarrow> bool) \<Rightarrow> 'a list \<Rightarrow> int" where
  "findIndex P [] = -1"
| "findIndex P (x # xs) =
     (if P x then 0 else (let i = findIndex P xs in if i < 0 then -1 else i + 1))"

text \<open>
  \<open>isNaN(parseInt(s))\<close>: \<open>parseInt\<close> skips leading white space and one sign, strips
  a prefix \<open>0x\<close> or \<open>0X\<close> and then reads hexadecimal digits, reads decimal digits
  otherwise, and answers \<open>NaN\<close> exactly when it could read no digit. Characters are
  bytes here, so the white space is that of Latin-1.
\<close>

definition isWhiteSpace :: "char \<Rightarrow> bool" where
  "isWhiteSpace c = ((of_char c :: nat) \<in> {9, 10, 11, 12, 13, 32, 160})"

definition isDecimalDigit :: "char \<Rightarrow> bool" where
  "isDecimalDigit c = (48 \<le> (of_char c :: nat) \<and> (of_char c :: nat) \<le> 57)"

definition isHexDigit :: "char \<Rightarrow> bool" where
  "isHexDigit c =
     (isDecimalDigit c
      \<or> (65 \<le> (of_char c :: nat) \<and> (of_char c :: nat) \<le> 70)
      \<or> (97 \<le> (of_char c :: nat) \<and> (of_char c :: nat) \<le> 102))"

definition parseIntIsNaN :: "string \<Rightarrow> bool" where
  "parseIntIsNaN s =
     (let t = dropWhile isWhiteSpace s;
          u = (case t of [] \<Rightarrow> [] | c # r \<Rightarrow> if c = CHR ''+'' \<or> c = CHR ''-'' then r else t)
      in case u of
           [] \<Rightarrow> True
         | [a] \<Rightarrow> \<not> isDecimalDigit a
         | a # b # r \<Rightarrow>
             if a = CHR ''0'' \<and> (b = CHR ''x'' \<or> b = CHR ''X'')
             then (case r of [] \<Rightarrow> True | d # _ \<Rightarrow> \<not> isHexDigit d)
             else \<not> isDecimalDigit a)"

text \<open>\<open>.filter(isTruthy)\<close> on a list of objects and \<open>undefined\<close>s keeps the objects.\<close>

fun filterTruthy :: "'a option list \<Rightarrow> 'a list" where
  "filterTruthy [] = []"
| "filterTruthy (None # xs) = filterTruthy xs"
| "filterTruthy (Some x # xs) = x # filterTruthy xs"

text \<open>A string or \<open>undefined\<close> is falsy when it is \<open>undefined\<close> or the empty string.\<close>

definition falsy :: "string option \<Rightarrow> bool" where
  "falsy v = (case v of None \<Rightarrow> True | Some s \<Rightarrow> s = [])"

definition nbsp :: string where
  "nbsp = [CHR 0xA0]"

section \<open>DateFormatter.ts\<close>

text \<open>
  A \<open>Date\<close> is its time value. \<open>Intl.DateTimeFormatOptions\<close> has the six fields the
  formatter sets; a field that is not set is \<open>None\<close>. The host gives the language of
  the editor (\<open>vscode.env.language\<close>) and \<open>Date.prototype.toLocaleString\<close>.
\<close>

type_synonym Date = int

record DateTimeFormatOptions =
  weekday :: "string option"
  year :: "string option"
  month :: "string option"
  day :: "string option"
  hour :: "string option"
  minute :: "string option"

record Host =
  language :: string
  toLocaleString :: "Date \<Rightarrow> string \<Rightarrow> DateTimeFormatOptions \<Rightarrow> string"

definition toReadableDateTime :: "Host \<Rightarrow> Date option \<Rightarrow> string" where
  "toReadableDateTime h date =
     (case date of
        None \<Rightarrow> ''???''
      | Some d \<Rightarrow>
          (let dateOptions =
                 \<lparr>weekday = Some ''long'', year = Some ''numeric'', month = Some ''long'',
                  day = Some ''numeric'', hour = Some ''numeric'', minute = Some ''numeric''\<rparr>
           in toLocaleString h d (language h) dateOptions))"

definition toReadableDate :: "Host \<Rightarrow> Date option \<Rightarrow> string" where
  "toReadableDate h date =
     (case date of
        None \<Rightarrow> ''???''
      | Some d \<Rightarrow>
          (let dateOptions =
                 \<lparr>weekday = Some ''long'', year = Some ''numeric'', month = Some ''long'',
                  day = Some ''numeric'', hour = None, minute = None\<rparr>
           in toLocaleString h d (language h) dateOptions))"

section \<open>Types of api/PerforceApi and the quick picks\<close>

text \<open>
  The records carry the fields that the sources read. The field \<open>file\<close> of a history
  entry is \<open>depotFile\<close> here. Where two types of the sources
  have a field of the same name, the field of the second carries a prefix.
\<close>

type_synonym Uri = string

datatype Direction = TO | FROM

record FileLogIntegration =
  integFile :: string
  startRev :: "string option"
  endRev :: string
  integOperation :: string
  direction :: Direction

record FileLogItem =
  depotFile :: string
  revision :: string
  chnum :: string
  operation :: string
  date :: "Date option"
  user :: string
  description :: string
  integrations :: "FileLogIntegration list"

record HaveFile =
  haveRevision :: string
  localUri :: Uri

record CachedOutput =
  cachedFilelog :: "FileLogItem list option"
  cachedHaveFile :: "HaveFile option"

text \<open>
  \<open>ChangeDetails\<close>. The type of the sources declares \<open>current\<close> and \<open>latest\<close> as always
  present; both are read from the history by index, so they are optional here.
\<close>

record ChangeDetails =
  cdAll :: "FileLogItem list"
  cdCurrent :: "FileLogItem option"
  cdCurrentIndex :: int
  cdNext :: "FileLogItem option"
  cdPrev :: "FileLogItem option"
  cdLatest :: "FileLogItem option"
  cdHaveFile :: "HaveFile option"

record DepotFileOperation =
  depotPath :: string
  fileRevision :: string
  fileOperation :: string

record FixedJob =
  jobId :: string
  jobDescription :: "string list"

record DescribedChangelist =
  dcChnum :: string
  dcUser :: string
  dcDescription :: "string list"
  dcIsPending :: bool
  dcDate :: "Date option"
  affectedFiles :: "DepotFileOperation list"
  shelvedFiles :: "DepotFileOperation list"
  fixedJobs :: "FixedJob list"

record DescribeOptions =
  chnums :: "string list"
  omitDiffs :: bool
  shelved :: "bool option"

text \<open>
  The \<open>performAction\<close> of a pick is a closure; it is modelled by the call it makes when
  the pick is chosen.
\<close>

datatype action =
    ShowQuickPickForFile Uri "CachedOutput option"
  | ShowRevChooserForFile Uri CachedOutput
  | ShowIntegPickForFile Uri
  | CopyToClipboard string
  | SyncFiles Uri "string list"
  | ShowTextDocument Uri
  | Annotate Uri
  | DiffPreviousIgnoringLeftInfo Uri
  | DiffFiles Uri Uri
  | ShowDiffChooserForFile Uri
  | ShowQuickPickForChangelist Uri string
  | FocusChangelist Uri DescribedChangelist
  | OpenExternal string
  | EditSpec Uri string
  | ShowUnshelveQuickPick Uri string
  | UnshelveViaBranchMapping Uri string
  | ShowQuickPickForJob Uri string
  | ShowQuickPickForShelvedFile Uri DepotFileOperation DescribedChangelist
  | ThrowsTypeError

record ActionableQuickPickItem =
  label :: string
  itemDescription :: "string option"
  detail :: "string option"
  performAction :: "action option"

record ActionableQuickPick =
  items :: "ActionableQuickPickItem list"
  placeHolder :: string
  recentKey :: "string option"

datatype error = Error string | TypeError

text \<open>
  What the sources call outside themselves: the CLI wrapper (\<open>p4.have\<close>,
  \<open>p4.getFileHistory\<close>, \<open>p4.describe\<close>), \<open>PerforceUri\<close>, \<open>DiffProvider\<close>,
  \<open>qp.makeClipPick\<close>, \<open>Path.basename\<close>, \<open>Date.prototype.toString\<close>, the configuration
  and the host. None of them is among the sources, so each is a field of the
  environment, and the answers of the CLI are values of the environment.
\<close>

record Env =
  p4have :: "Uri \<Rightarrow> HaveFile option"
  p4getFileHistory :: "Uri \<Rightarrow> Uri \<Rightarrow> bool option \<Rightarrow> FileLogItem list"
  p4describe :: "Uri \<Rightarrow> DescribeOptions \<Rightarrow> DescribedChangelist list"
  getRevOrAtLabel :: "Uri \<Rightarrow> string option"
  fromUriWithRevision :: "Uri \<Rightarrow> string \<Rightarrow> Uri"
  fromDepotPath :: "Uri \<Rightarrow> string \<Rightarrow> string \<Rightarrow> Uri"
  getUsableWorkspace :: "Uri \<Rightarrow> Uri option"
  fsPathWithoutRev :: "Uri \<Rightarrow> string"
  uriToString :: "Uri \<Rightarrow> string"
  diffTitleForDepotPaths :: "string \<Rightarrow> string \<Rightarrow> string \<Rightarrow> string \<Rightarrow> string"
  makeClipPick :: "string \<Rightarrow> string \<Rightarrow> ActionableQuickPickItem"
  basename :: "string \<Rightarrow> string"
  dateToString :: "Date \<Rightarrow> string"
  getSwarmLink :: "string \<Rightarrow> string option"
  parseUri :: "string \<Rightarrow> Uri option"
  host :: Host

section \<open>quickPick/FileQuickPick.ts\<close>

definition makeCache :: "ChangeDetails \<Rightarrow> CachedOutput" where
  "makeCache details = \<lparr>cachedFilelog = Some (cdAll details), cachedHaveFile = cdHaveFile details\<rparr>"

definition makeRevisionSummary :: "Env \<Rightarrow> FileLogItem \<Rightarrow> string" where
  "makeRevisionSummary env change =
     depotFile change @ ''#'' @ revision change @ '' '' @ operation change @ '' on '' @
     toReadableDateTime (host env) (date change) @ '' by '' @ user change @ '' : '' @
     description change"

definition makeShortSummary :: "Env \<Rightarrow> FileLogItem \<Rightarrow> string" where
  "makeShortSummary env change =
     ''#'' @ revision change @
     (case date change of Some d \<Rightarrow> ''  $(calendar) '' @ dateToString env d | None \<Rightarrow> []) @
     '' $(person) '' @ user change @ '' $(circle-filled) '' @ slice (description change) 0 32"

subsection \<open>getChangeDetails\<close>

text \<open>
  The three values that \<open>getChangeDetails\<close> binds first: the have record (from the cache,
  else from the CLI), the revision to use (the revision of the URI when \<open>parseInt\<close> reads
  a number from it, else the revision of the have record), and the history (from the
  cache, else from the CLI). Each \<open>throw\<close> of the function is an \<open>Inl\<close>; the messages
  that \<open>Display\<close> shows before a \<open>throw\<close> are not part of the model.
\<close>

definition usedHaveFile :: "Env \<Rightarrow> Uri \<Rightarrow> CachedOutput option \<Rightarrow> HaveFile option" where
  "usedHaveFile env uri cached =
     (case (case cached of None \<Rightarrow> None | Some c \<Rightarrow> cachedHaveFile c) of
        Some h \<Rightarrow> Some h
      | None \<Rightarrow> p4have env uri)"

definition usedRev :: "Env \<Rightarrow> Uri \<Rightarrow> CachedOutput option \<Rightarrow> string option" where
  "usedRev env uri cached =
     (let haveFile = usedHaveFile env uri cached;
          uriRev = getRevOrAtLabel env uri
      in case uriRev of
           None \<Rightarrow> map_option haveRevision haveFile
         | Some r \<Rightarrow>
             if r = [] \<or> parseIntIsNaN r then map_option haveRevision haveFile else Some r)"

definition usedFilelog :: "Env \<Rightarrow> Uri \<Rightarrow> CachedOutput option \<Rightarrow> bool option \<Rightarrow> FileLogItem list" where
  "usedFilelog env uri cached followBranches =
     (let arg = fromUriWithRevision env uri []
      in case (case cached of None \<Rightarrow> None | Some c \<Rightarrow> cachedFilelog c) of
           Some l \<Rightarrow> l
         | None \<Rightarrow> p4getFileHistory env uri arg followBranches)"

definition getChangeDetails ::
    "Env \<Rightarrow> Uri \<Rightarrow> CachedOutput option \<Rightarrow> bool option \<Rightarrow> error + ChangeDetails" where
  "getChangeDetails env uri cached followBranches =
     (let haveFile = usedHaveFile env uri cached;
          useRev = usedRev env uri cached
      in if falsy useRev then Inl (Error (''No revision available for '' @ uriToString env uri))
         else
           (let filelog = usedFilelog env uri cached followBranches
            in if length filelog = 0 then Inl (Error ''Filelog info empty'')
               else
                 (let currentIndex = findIndex (\<lambda>c. Some (revision c) = useRev) filelog;
                      current = elementAt filelog currentIndex;
                      nxt = elementAt filelog (currentIndex - 1);
                      prv = elementAt filelog (currentIndex + 1);
                      latest = elementAt filelog 0
                  in Inr \<lparr>cdAll = filelog, cdCurrent = current, cdCurrentIndex = currentIndex,
                           cdNext = nxt, cdPrev = prv, cdLatest = latest,
                           cdHaveFile = haveFile\<rparr>)))"

subsection \<open>The picks of the file quick pick\<close>

text \<open>\<open>PerforceUri.getUsableWorkspace(uri) ?? uri\<close>.\<close>

definition usableWorkspaceOr :: "Env \<Rightarrow> Uri \<Rightarrow> Uri" where
  "usableWorkspaceOr env uri = (case getUsableWorkspace env uri of Some w \<Rightarrow> w | None \<Rightarrow> uri)"

text \<open>
  Each function that builds picks reads fields of \<open>changes.current\<close> while it builds
  them. Where \<open>current\<close> is \<open>undefined\<close> such a read throws a \<open>TypeError\<close>, so the
  functions return a sum. Reads inside a \<open>performAction\<close> closure happen only when the
  pick is chosen; \<open>ThrowsTypeError\<close> stands for a closure whose read would throw.
\<close>

definition makeNextAndPrevPicks ::
    "Env \<Rightarrow> Uri \<Rightarrow> ChangeDetails \<Rightarrow> error + ActionableQuickPickItem list" where
  "makeNextAndPrevPicks env uri changes =
     (let prev = cdPrev changes;
          nxt = cdNext changes
      in case cdCurrent changes of
           None \<Rightarrow> Inl TypeError
         | Some current \<Rightarrow>
             (let integFrom = find (\<lambda>i. direction i = FROM) (integrations current)
              in Inr (filterTruthy
                   [Some (case prev of
                            Some p \<Rightarrow>
                              \<lparr>label = ''$(arrow-small-left) Previous revision'',
                               itemDescription = Some (makeShortSummary env p),
                               detail = None,
                               performAction = Some (ShowQuickPickForFile
                                 (fromDepotPath env (usableWorkspaceOr env uri)
                                    (depotFile p) (revision p))
                                 (Some (makeCache changes)))\<rparr>
                          | None \<Rightarrow>
                              \<lparr>label = ''$(arrow-small-left) Previous revision'',
                               itemDescription = Some ''n/a'',
                               detail = None,
                               performAction = None\<rparr>),
                    Some (case nxt of
                            Some n \<Rightarrow>
                              \<lparr>label = ''$(arrow-small-right) Next revision'',
                               itemDescription = Some (makeShortSummary env n),
                               detail = None,
                               performAction = Some (ShowQuickPickForFile
                                 (fromDepotPath env (usableWorkspaceOr env uri)
                                    (depotFile n) (revision n))
                                 (Some (makeCache changes)))\<rparr>
                          | None \<Rightarrow>
                              \<lparr>label = ''$(arrow-small-right) Next revision'',
                               itemDescription = Some ''n/a'',
                               detail = None,
                               performAction = None\<rparr>),
                    Some \<lparr>label = ''$(symbol-numeric) File history...'',
                          itemDescription = Some ''Go to a specific revision'',
                          detail = None,
                          performAction = Some (ShowRevChooserForFile uri (makeCache changes))\<rparr>,
                    (case integFrom of
                       Some i \<Rightarrow>
                         Some \<lparr>label = ''$(git-merge) Go to integration source revision'',
                               itemDescription = Some
                                 (integOperation i @ '' from '' @ integFile i @ ''#'' @ endRev i),
                               detail = None,
                               performAction = Some (ShowQuickPickForFile
                                 (fromDepotPath env (usableWorkspaceOr env uri)
                                    (integFile i) (endRev i))
                                 None)\<rparr>
                     | None \<Rightarrow> None),
                    Some \<lparr>label = ''$(source-control) Go to integration target...'',
                          itemDescription = Some ''See integrations that include this revision'',
                          detail = None,
                          performAction = Some (ShowIntegPickForFile uri)\<rparr>])))"

definition makeClipboardPicks ::
    "Env \<Rightarrow> Uri \<Rightarrow> ChangeDetails \<Rightarrow> error + ActionableQuickPickItem list" where
  "makeClipboardPicks env uri changes =
     (case cdCurrent changes of
        None \<Rightarrow> Inl TypeError
      | Some current \<Rightarrow>
          Inr [makeClipPick env ''depot path'' (depotFile current @ ''#'' @ revision current)])"

definition makeSyncPicks ::
    "Env \<Rightarrow> Uri \<Rightarrow> ChangeDetails \<Rightarrow> error + ActionableQuickPickItem list" where
  "makeSyncPicks env uri change =
     (case cdCurrent change of
        None \<Rightarrow> Inl TypeError
      | Some current \<Rightarrow>
          Inr [\<lparr>label = ''$(repo-pull) Sync this revision'',
                itemDescription = Some
                  (''Sync '' @ basename env (depotFile current) @ ''#'' @ revision current),
                detail = None,
                performAction = Some
                  (SyncFiles uri [depotFile current @ ''#'' @ revision current])\<rparr>])"

text \<open>
  \<open>makeDiffPicks\<close>. The title of the diff against the previous revision reads
  \<open>changes.current\<close> only when there is a previous revision, and the title of the diff
  against the latest revision only when \<open>latest !== changes.current\<close>. The comparison
  is one of object identity; two entries of a history differ in file or revision, so
  it is the comparison of the entries here. The closure of the diff against the
  workspace file reads \<open>changes.current\<close> when it is performed. \<open>diffPickItems\<close> is
  the array literal of \<open>makeDiffPicks\<close>, given its two picks that read \<open>current\<close>.
\<close>

definition diffPickItems ::
    "Env \<Rightarrow> Uri \<Rightarrow> ChangeDetails \<Rightarrow> ActionableQuickPickItem option \<Rightarrow>
     ActionableQuickPickItem option \<Rightarrow> ActionableQuickPickItem list" where
  "diffPickItems env uri changes prevPick latestPick =
     (let have = cdHaveFile changes
      in filterTruthy
           [Some \<lparr>label = ''$(file) Show this revision'',
                  itemDescription = Some ''Open this revision in the editor'',
                  detail = None,
                  performAction = Some (ShowTextDocument uri)\<rparr>,
            (case have of
               Some h \<Rightarrow>
                 Some \<lparr>label = ''$(file) Open workspace file'',
                       itemDescription = Some ''Open the local file in the editor'',
                       detail = None,
                       performAction = Some (ShowTextDocument (localUri h))\<rparr>
             | None \<Rightarrow> None),
            Some \<lparr>label = ''$(list-ordered) Annotate this revision'',
                  itemDescription = Some ''Open in the editor, with change details for each line'',
                  detail = None,
                  performAction = Some (Annotate uri)\<rparr>,
            prevPick,
            latestPick,
            Some \<lparr>label = ''$(diff) Diff against workspace file'',
                  itemDescription =
                    Some (case have of Some h \<Rightarrow> [] | None \<Rightarrow> ''No matching workspace file found''),
                  detail = None,
                  performAction =
                    (case have of
                       Some h \<Rightarrow>
                         (case cdCurrent changes of
                            Some current \<Rightarrow>
                              Some (DiffFiles
                                (fromDepotPath env (usableWorkspaceOr env uri)
                                   (depotFile current) (revision current))
                                (localUri h))
                          | None \<Rightarrow> Some ThrowsTypeError)
                     | None \<Rightarrow> None)\<rparr>,
            Some \<lparr>label = ''$(diff) Diff against...'',
                  itemDescription = Some ''Choose another revision to diff against'',
                  detail = None,
                  performAction = Some (ShowDiffChooserForFile uri)\<rparr>])"

definition makeDiffPicks ::
    "Env \<Rightarrow> Uri \<Rightarrow> ChangeDetails \<Rightarrow> error + ActionableQuickPickItem list" where
  "makeDiffPicks env uri changes =
     (let prev = cdPrev changes;
          latest = cdLatest changes
      in case cdCurrent changes of
           None \<Rightarrow>
             (if prev \<noteq> None \<or> latest \<noteq> None then Inl TypeError
              else Inr (diffPickItems env uri changes None None))
         | Some current \<Rightarrow>
             (let prevPick =
                    (case prev of
                       Some p \<Rightarrow>
                         Some \<lparr>label = ''$(diff) Diff against previous revision'',
                               itemDescription = Some
                                 (diffTitleForDepotPaths env (depotFile p) (revision p)
                                    (depotFile current) (revision current)),
                               detail = None,
                               performAction = Some (DiffPreviousIgnoringLeftInfo uri)\<rparr>
                     | None \<Rightarrow> None)
              in if latest \<noteq> Some current
                 then (case latest of
                         None \<Rightarrow> Inl TypeError
                       | Some l \<Rightarrow>
                           Inr (diffPickItems env uri changes prevPick
                             (Some \<lparr>label = ''$(diff) Diff against latest revision'',
                                    itemDescription = Some
                                      (diffTitleForDepotPaths env (depotFile current)
                                         (revision current) (depotFile l) (revision l)),
                                    detail = None,
                                    performAction = Some (DiffFiles
                                      (fromDepotPath env (usableWorkspaceOr env uri)
                                         (depotFile current) (revision current))
                                      (fromDepotPath env (usableWorkspaceOr env uri)
                                         (depotFile l) (revision l)))\<rparr>)))
                 else Inr (diffPickItems env uri changes prevPick None)))"

definition makeChangelistPicks ::
    "Env \<Rightarrow> Uri \<Rightarrow> ChangeDetails \<Rightarrow> error + ActionableQuickPickItem list" where
  "makeChangelistPicks env uri changes =
     (case cdCurrent changes of
        None \<Rightarrow> Inl TypeError
      | Some current \<Rightarrow>
          Inr [\<lparr>label = ''$(list-flat) Go to changelist details'',
                itemDescription = Some
                  (''Change '' @ chnum current @ nbsp @ '' $(book) '' @ nbsp @ description current),
                detail = None,
                performAction = Some (ShowQuickPickForChangelist uri (chnum current))\<rparr>])"

subsection \<open>fileQuickPickProvider.provideActions\<close>

text \<open>
  The five lists are built from left to right, as the arguments of \<open>concat\<close> are
  evaluated, and the first throw ends the call. The place holder is
  \<open>makeRevisionSummary(changes.current)\<close>, which reads fields of \<open>current\<close>.
\<close>

definition fileQuickPickProvider_provideActions ::
    "Env \<Rightarrow> Uri \<Rightarrow> CachedOutput option \<Rightarrow> error + ActionableQuickPick" where
  "fileQuickPickProvider_provideActions env uri cached =
     (case getChangeDetails env uri cached None of
        Inl e \<Rightarrow> Inl e
      | Inr changes \<Rightarrow>
     (case makeNextAndPrevPicks env uri changes of
        Inl e \<Rightarrow> Inl e
      | Inr navPicks \<Rightarrow>
     (case makeClipboardPicks env uri changes of
        Inl e \<Rightarrow> Inl e
      | Inr clipPicks \<Rightarrow>
     (case makeSyncPicks env uri changes of
        Inl e \<Rightarrow> Inl e
      | Inr syncPicks \<Rightarrow>
     (case makeDiffPicks env uri changes of
        Inl e \<Rightarrow> Inl e
      | Inr diffPicks \<Rightarrow>
     (case makeChangelistPicks env uri changes of
        Inl e \<Rightarrow> Inl e
      | Inr changelistPicks \<Rightarrow>
          (let actions = navPicks @ clipPicks @ syncPicks @ diffPicks @ changelistPicks
           in case cdCurrent changes of
                None \<Rightarrow> Inl TypeError
              | Some current \<Rightarrow>
                  Inr \<lparr>items = actions,
                       placeHolder = makeRevisionSummary env current,
                       recentKey = Some (''file:'' @ fsPathWithoutRev env uri)\<rparr>)))))))"

section \<open>quickPick/ChangeQuickPick.ts\<close>

text \<open>
  The decimal digits of a length, \<open>Array.prototype.join\<close> and \<open>String.prototype.repeat\<close>.
\<close>

fun showNat :: "nat \<Rightarrow> string" where
  "showNat n =
     (if n < 10 then [char_of (48 + n)] else showNat (n div 10) @ [char_of (48 + n mod 10)])"

declare showNat.simps [simp del]

fun join :: "string list \<Rightarrow> string \<Rightarrow> string" where
  "join [] sep = []"
| "join [l] sep = l"
| "join (l # m # ls) sep = l @ sep @ join (m # ls) sep"

definition repeat :: "string \<Rightarrow> nat \<Rightarrow> string" where
  "repeat s n = concat (replicate n s)"

definition getOperationIcon :: "string \<Rightarrow> string" where
  "getOperationIcon opn =
     (if opn = ''add'' then ''diff-added''
      else if opn = ''delete'' \<or> opn = ''move/delete'' \<or> opn = ''purge'' then ''diff-removed''
      else if opn = ''move/add'' \<or> opn = ''integrate'' \<or> opn = ''branch'' then ''diff-renamed''
      else ''diff-modified'')"

definition makeFocusPick :: "Uri \<Rightarrow> DescribedChangelist \<Rightarrow> ActionableQuickPickItem list" where
  "makeFocusPick resource change =
     [\<lparr>label = ''$(multiple-windows) Focus in changelist search view'',
       itemDescription = None,
       detail = None,
       performAction = Some (FocusChangelist resource change)\<rparr>]"

text \<open>
  \<open>makeSwarmPick\<close>: no pick without a configured link; \<open>vscode.Uri.parse\<close> in strict
  mode throws on a link it cannot parse (\<open>parseUri\<close> answers \<open>None\<close>), and the \<open>catch\<close>
  returns no pick.
\<close>

definition makeSwarmPick :: "Env \<Rightarrow> DescribedChangelist \<Rightarrow> ActionableQuickPickItem list" where
  "makeSwarmPick env change =
     (case getSwarmLink env (dcChnum change) of
        None \<Rightarrow> []
      | Some swarmAddr \<Rightarrow>
          if swarmAddr = [] then []
          else (case parseUri env swarmAddr of
                  Some u \<Rightarrow>
                    [\<lparr>label = ''$(eye) Open in review tool'',
                      itemDescription = Some (''$(link-external) '' @ uriToString env u),
                      detail = None,
                      performAction = Some (OpenExternal u)\<rparr>]
                | None \<Rightarrow> []))"

definition makeEditPicks :: "Uri \<Rightarrow> DescribedChangelist \<Rightarrow> ActionableQuickPickItem list" where
  "makeEditPicks uri change =
     [\<lparr>label = ''$(edit) Edit changelist'',
       itemDescription = Some ''Edit the full changelist spec in the editor'',
       detail = None,
       performAction = Some (EditSpec uri (dcChnum change))\<rparr>]"

definition makeChangeClipboardPicks ::
    "Env \<Rightarrow> Uri \<Rightarrow> DescribedChangelist \<Rightarrow> ActionableQuickPickItem list" where
  "makeChangeClipboardPicks env uri change =
     [makeClipPick env ''change number'' (dcChnum change),
      makeClipPick env ''user'' (dcUser change),
      makeClipPick env ''change description'' (join (dcDescription change) [CHR 0x0A])]"

definition makeFilePicks ::
    "Env \<Rightarrow> Uri \<Rightarrow> DescribedChangelist \<Rightarrow> ActionableQuickPickItem list" where
  "makeFilePicks env uri change =
     [\<lparr>label = ''Changed files: '' @ showNat (length (affectedFiles change)),
       itemDescription = None,
       detail = None,
       performAction = None\<rparr>] @
     map (\<lambda>f.
            \<lparr>label = repeat nbsp 3 @ ''$('' @ getOperationIcon (fileOperation f) @ '')'' @ '' '' @
                     depotPath f @ ''#'' @ fileRevision f,
             itemDescription = Some (fileOperation f),
             detail = None,
             performAction = Some (ShowQuickPickForFile
               (fromDepotPath env (usableWorkspaceOr env uri) (depotPath f) (fileRevision f))
               None)\<rparr>)
       (affectedFiles change)"

definition makeUnshelvePicks ::
    "Uri \<Rightarrow> DescribedChangelist option \<Rightarrow> ActionableQuickPickItem list" where
  "makeUnshelvePicks uri change =
     (case change of
        None \<Rightarrow> []
      | Some c \<Rightarrow>
          if length (shelvedFiles c) < 1 then []
          else
            [\<lparr>label = ''$(cloud-download) Unshelve changelist...'',
              itemDescription = Some ''Unshelve into a selected changelist'',
              detail = None,
              performAction = Some (ShowUnshelveQuickPick uri (dcChnum c))\<rparr>,
             \<lparr>label = ''$(cloud-download) Unshelve via branch mapping...'',
              itemDescription = Some ''Unshelve, mapping through a branch spec'',
              detail = None,
              performAction = Some (UnshelveViaBranchMapping uri (dcChnum c))\<rparr>])"

definition makeShelvedFilePicks ::
    "Env \<Rightarrow> Uri \<Rightarrow> DescribedChangelist option \<Rightarrow> ActionableQuickPickItem list" where
  "makeShelvedFilePicks env uri change =
     (case change of
        None \<Rightarrow> []
      | Some c \<Rightarrow>
          if length (shelvedFiles c) < 1 then []
          else
            [\<lparr>label = ''Shelved files: '' @ showNat (length (shelvedFiles c)),
              itemDescription = None,
              detail = None,
              performAction = None\<rparr>] @
            map (\<lambda>f.
                   \<lparr>label = repeat nbsp 3 @ ''$('' @ getOperationIcon (fileOperation f) @ '')'' @
                            '' '' @ depotPath f @ ''#'' @ fileRevision f,
                    itemDescription = Some (fileOperation f),
                    detail = None,
                    performAction = Some (ShowQuickPickForShelvedFile
                      (usableWorkspaceOr env uri) f c)\<rparr>)
              (shelvedFiles c))"

definition makeJobPicks :: "Uri \<Rightarrow> DescribedChangelist \<Rightarrow> ActionableQuickPickItem list" where
  "makeJobPicks uri change =
     [\<lparr>label = ''Jobs fixed: '' @ showNat (length (fixedJobs change)),
       itemDescription = None,
       detail = None,
       performAction = None\<rparr>] @
     map (\<lambda>job.
            \<lparr>label = repeat nbsp 3 @ ''$(tools) '' @ jobId job,
             itemDescription = Some (join (jobDescription job) '' ''),
             detail = None,
             performAction = Some (ShowQuickPickForJob uri (jobId job))\<rparr>)
       (fixedJobs change)"

subsection \<open>changeQuickPickProvider.provideActions\<close>

text \<open>
  The provider calls \<open>p4.describe\<close> once for the change and, only for a pending change,
  once more for its shelved files. The model returns the calls it made to the CLI, in
  order, beside the result.
\<close>

type_synonym describeCall = "Uri \<times> DescribeOptions"

definition describeOptions :: "string \<Rightarrow> DescribeOptions" where
  "describeOptions cn = \<lparr>chnums = [cn], omitDiffs = True, shelved = None\<rparr>"

definition shelvedDescribeOptions :: "string \<Rightarrow> DescribeOptions" where
  "shelvedDescribeOptions cn = \<lparr>chnums = [cn], omitDiffs = True, shelved = Some True\<rparr>"

definition changeQuickPickProvider_provideActions ::
    "Env \<Rightarrow> Uri \<Rightarrow> string \<Rightarrow> describeCall list \<times> (error + ActionableQuickPick)" where
  "changeQuickPickProvider_provideActions env resource cn =
     (let changes = p4describe env resource (describeOptions cn);
          calls = [(resource, describeOptions cn)]
      in case changes of
           [] \<Rightarrow> (calls, Inl (Error ''Unable to find change details''))
         | change # _ \<Rightarrow>
             (let shelvedChanges =
                    (if dcIsPending change
                     then p4describe env resource (shelvedDescribeOptions cn) else []);
                  calls' =
                    (if dcIsPending change
                     then calls @ [(resource, shelvedDescribeOptions cn)] else calls);
                  shelvedChange = elementAt shelvedChanges 0;
                  actions =
                    makeFocusPick resource change @
                    makeSwarmPick env change @
                    makeChangeClipboardPicks env resource change @
                    makeEditPicks resource change @
                    makeUnshelvePicks resource shelvedChange @
                    makeJobPicks resource change @
                    makeFilePicks env resource change @
                    makeShelvedFilePicks env resource shelvedChange
              in (calls',
                  Inr \<lparr>items = actions,
                       placeHolder =
                         (if dcIsPending change then ''Pending'' else ''Submitted'') @
                         '' change '' @ cn @ '' by '' @ dcUser change @ '' on '' @
                         toReadableDateTime (host env) (dcDate change) @ '' : '' @
                         join (dcDescription change) '' '',
                       recentKey = None\<rparr>)))"

text \<open>
  The picks that C4 speaks of: an unshelve pick is a pick that opens the unshelve quick
  pick, directly or through a branch mapping; a shelved-file pick is the heading of the
  shelved files or a pick that opens the quick pick of a shelved file.
\<close>

definition isUnshelvePick :: "ActionableQuickPickItem \<Rightarrow> bool" where
  "isUnshelvePick i =
     (case performAction i of
        Some (ShowUnshelveQuickPick u c) \<Rightarrow> True
      | Some (UnshelveViaBranchMapping u c) \<Rightarrow> True
      | _ \<Rightarrow> False)"

definition isShelvedFilePick :: "ActionableQuickPickItem \<Rightarrow> bool" where
  "isShelvedFilePick i =
     (startsWith (label i) ''Shelved files: ''
      \<or> (case performAction i of
            Some (ShowQuickPickForShelvedFile u f c) \<Rightarrow> True
          | _ \<Rightarrow> False))"

text \<open>
  The shelved description exists and lists a shelved file: the change is pending, so
  that the CLI is asked, and the first description of the answer has a shelved file.
\<close>

definition shelvedListed :: "Env \<Rightarrow> Uri \<Rightarrow> string \<Rightarrow> DescribedChangelist \<Rightarrow> bool" where
  "shelvedListed env resource cn change =
     (dcIsPending change
      \<and> (case p4describe env resource (shelvedDescribeOptions cn) of
            [] \<Rightarrow> False
          | sc # rest \<Rightarrow> shelvedFiles sc \<noteq> []))"

section \<open>search/ChangelistTreeView.ts\<close>

record ChangeInfo =
  ciChnum :: string
  ciDescription :: "string list"
  ciUser :: string
  ciIsPending :: bool

datatype TreeItemCollapsibleState = NoneState | Collapsed | Expanded

text \<open>
  The children of a \<open>SearchResultItem\<close>: one \<open>SearchResultFile\<close> per affected file, and
  a \<open>SearchResultShelvedSubTree\<close> with the shelved files.
\<close>

datatype SearchResultChild =
    SearchResultFile DepotFileOperation
  | SearchResultShelvedSubTree "DepotFileOperation list"

text \<open>
  A tree item is an object: two items built from the same change are different
  children. \<open>objectId\<close> is the identity of the object, given by the allocation counter
  at the time of its \<open>new\<close>.
\<close>

record SearchResultItem =
  objectId :: nat
  itemResource :: Uri
  itemChange :: ChangeInfo
  itemLabel :: string
  collapsibleState :: TreeItemCollapsibleState
  itemChildren :: "SearchResultChild list"

record SearchResultTree =
  treeLabel :: string
  treeResource :: Uri
  isPinned :: bool
  results :: "ChangeInfo list"
  children :: "SearchResultItem list"

subsection \<open>What the tree inherits and imports\<close>

text \<open>
  Modelled from the spec: \<open>addChild\<close>, \<open>clearChildren\<close> and \<open>insertChild\<close> of
  \<open>SelfExpandingTreeItem\<close> (TreeView.ts), which is not among the sources. The spec says
  that a tree node owns its list of child nodes: \<open>addChild\<close> puts a node at the end of
  the list, \<open>insertChild\<close> at its front, \<open>clearChildren\<close> empties it, and a child that
  is disposed leaves it.
\<close>

definition addChild :: "SearchResultTree \<Rightarrow> SearchResultItem \<Rightarrow> SearchResultTree" where
  "addChild t c = t\<lparr>children := children t @ [c]\<rparr>"

definition clearChildren :: "SearchResultTree \<Rightarrow> SearchResultTree" where
  "clearChildren t = t\<lparr>children := []\<rparr>"

text \<open>
  Modelled from the spec: \<open>dedupe\<close> of TsUtils.ts, which is not among the sources. The
  sources say that duplicates are removed by the key \<open>chnum\<close>; of the items with one key
  the first is kept, and the order of the kept items is that of the input.
\<close>

fun dedupeSeen :: "'k list \<Rightarrow> ('a \<Rightarrow> 'k) \<Rightarrow> 'a list \<Rightarrow> 'a list" where
  "dedupeSeen seen key [] = []"
| "dedupeSeen seen key (x # xs) =
     (if key x \<in> set seen then dedupeSeen seen key xs
      else x # dedupeSeen (key x # seen) key xs)"

definition dedupe :: "'a list \<Rightarrow> ('a \<Rightarrow> 'k) \<Rightarrow> 'a list" where
  "dedupe xs key = dedupeSeen [] key xs"

subsection \<open>SearchResultItem\<close>

definition newSearchResultItem :: "nat \<Rightarrow> Uri \<Rightarrow> ChangeInfo \<Rightarrow> SearchResultItem" where
  "newSearchResultItem oid resource change =
     \<lparr>objectId = oid,
      itemResource = resource,
      itemChange = change,
      itemLabel = ciChnum change @ '': '' @ slice (join (ciDescription change) '' '') 0 32,
      collapsibleState = NoneState,
      itemChildren = []\<rparr>"

definition addDetails :: "SearchResultItem \<Rightarrow> DescribedChangelist \<Rightarrow> SearchResultItem" where
  "addDetails item d =
     item\<lparr>itemChildren := map SearchResultFile (affectedFiles d),
          collapsibleState :=
            (if collapsibleState item = Expanded then Expanded else Collapsed)\<rparr>"

text \<open>
  The label of a child: a file node shows its depot path and revision, the group of
  shelved files shows their number. \<open>addShelvedFiles\<close> disposes every child whose
  label starts with \<open>Shelved Files\<close> and then inserts the new group, if it has files.
\<close>

fun childLabel :: "SearchResultChild \<Rightarrow> string" where
  "childLabel (SearchResultFile f) = depotPath f @ ''#'' @ fileRevision f"
| "childLabel (SearchResultShelvedSubTree fs) =
     ''Shelved Files ('' @ showNat (length fs) @ '')''"

definition addShelvedFiles :: "SearchResultItem \<Rightarrow> DescribedChangelist \<Rightarrow> SearchResultItem" where
  "addShelvedFiles item d =
     (let kept = filter (\<lambda>c. \<not> startsWith (childLabel c) ''Shelved Files'') (itemChildren item)
      in item\<lparr>itemChildren :=
           (if length (shelvedFiles d) > 0
            then SearchResultShelvedSubTree (shelvedFiles d) # kept else kept)\<rparr>)"

subsection \<open>SearchResultTree\<close>

text \<open>
  \<open>results.map((r) => new SearchResultItem(resource, r))\<close>: the new items take the next
  object identities.
\<close>

fun newItems :: "nat \<Rightarrow> Uri \<Rightarrow> ChangeInfo list \<Rightarrow> SearchResultItem list" where
  "newItems fresh resource [] = []"
| "newItems fresh resource (r # rs) =
     newSearchResultItem fresh resource r # newItems (Suc fresh) resource rs"

text \<open>
  The constructor and \<open>refresh\<close> return the tree and the allocation counter after their
  \<open>new\<close>s. The argument of \<open>refresh\<close> is the answer of \<open>getNewResults\<close>, which asks the CLI.
  \<open>reveal\<close> and the start of \<open>populateChangeDetails\<close> leave the tree as it is.
\<close>

definition newSearchResultTree ::
    "nat \<Rightarrow> Uri \<Rightarrow> ChangeInfo list \<Rightarrow> string \<Rightarrow> SearchResultTree \<times> nat" where
  "newSearchResultTree fresh resource rs lbl =
     (let res = dedupe rs ciChnum;
          t = \<lparr>treeLabel = lbl, treeResource = resource, isPinned = False,
               results = res, children = []\<rparr>;
          cs = newItems fresh resource res
      in (foldl addChild t cs, fresh + length cs))"

definition refresh :: "nat \<Rightarrow> SearchResultTree \<Rightarrow> ChangeInfo list \<Rightarrow> SearchResultTree \<times> nat" where
  "refresh fresh t newResults =
     (let t1 = t\<lparr>results := dedupe newResults ciChnum\<rparr>;
          t2 = clearChildren t1;
          cs = newItems fresh (treeResource t2) (results t2)
      in (foldl addChild t2 cs, fresh + length cs))"

text \<open>
  What \<open>populateChangeDetails\<close> and \<open>populateShelvedFiles\<close> do when the CLI has answered:
  each description goes to the first child with its changelist number, if there is one.
\<close>

definition applyToChild ::
    "(SearchResultItem \<Rightarrow> DescribedChangelist \<Rightarrow> SearchResultItem) \<Rightarrow>
     SearchResultItem list \<Rightarrow> DescribedChangelist \<Rightarrow> SearchResultItem list" where
  "applyToChild f cs d =
     (let i = findIndex (\<lambda>c. ciChnum (itemChange c) = dcChnum d) cs
      in if i < 0 then cs else cs[nat i := f (cs ! nat i) d])"

definition populateChangeDetails ::
    "SearchResultTree \<Rightarrow> DescribedChangelist list \<Rightarrow> SearchResultTree" where
  "populateChangeDetails t descriptions =
     t\<lparr>children := foldl (applyToChild addDetails) (children t) descriptions\<rparr>"

definition populateShelvedFiles ::
    "SearchResultTree \<Rightarrow> DescribedChangelist list \<Rightarrow> SearchResultTree" where
  "populateShelvedFiles t shelvedDescriptions =
     t\<lparr>children := foldl (applyToChild addShelvedFiles) (children t) shelvedDescriptions\<rparr>"

definition pin :: "SearchResultTree \<Rightarrow> SearchResultTree" where
  "pin t = t\<lparr>isPinned := True\<rparr>"

definition unpin :: "SearchResultTree \<Rightarrow> SearchResultTree" where
  "unpin t = t\<lparr>isPinned := False\<rparr>"

text \<open>
  The states of a tree and of the allocation counter: the constructor makes the first;
  then the tree is refreshed, populated, pinned and unpinned in any order, and other
  objects are allocated in between.
\<close>

inductive reachable :: "SearchResultTree \<Rightarrow> nat \<Rightarrow> bool" where
  constructed:
    "newSearchResultTree fresh resource rs lbl = (t, fresh') \<Longrightarrow> reachable t fresh'"
| refreshed:
    "reachable t fresh \<Longrightarrow> refresh fresh t rs = (t', fresh') \<Longrightarrow> reachable t' fresh'"
| populated:
    "reachable t fresh \<Longrightarrow> reachable (populateChangeDetails t ds) fresh"
| populatedShelved:
    "reachable t fresh \<Longrightarrow> reachable (populateShelvedFiles t ds) fresh"
| pinned:
    "reachable t fresh \<Longrightarrow> reachable (pin t) fresh"
| unpinned:
    "reachable t fresh \<Longrightarrow> reachable (unpin t) fresh"
| allocated:
    "reachable t fresh \<Longrightarrow> fresh \<le> fresh' \<Longrightarrow> reachable t fresh'"

text \<open>
  The invariant of the tree: the stored results have one entry per changelist number,
  and the children are, in order, one object per stored result.
\<close>

definition treeInvariant :: "SearchResultTree \<Rightarrow> bool" where
  "treeInvariant t =
     (distinct (map ciChnum (results t))
      \<and> map itemChange (children t) = results t
      \<and> distinct (map objectId (children t)))"

section \<open>An example environment\<close>

text \<open>
  A file with three revisions and no have record; the revision of a URI is the text
  after its \<open>#\<close>. Changelist 30 is pending and has one shelved file; changelist 20 is
  submitted, and the CLI would list a shelved file for it if it were asked.
\<close>

definition revOfUri :: "Uri \<Rightarrow> string option" where
  "revOfUri u = (case dropWhile (\<lambda>c. c \<noteq> CHR ''#'') u of [] \<Rightarrow> None | c # r \<Rightarrow> Some r)"

definition rev3 :: FileLogItem where
  "rev3 = \<lparr>depotFile = ''//depot/a.txt'', revision = ''3'', chnum = ''30'', operation = ''edit'',
           date = None, user = ''ann'', description = ''third'', integrations = []\<rparr>"

definition rev2 :: FileLogItem where
  "rev2 = \<lparr>depotFile = ''//depot/a.txt'', revision = ''2'', chnum = ''20'', operation = ''edit'',
           date = None, user = ''bob'', description = ''second'', integrations = []\<rparr>"

definition rev1 :: FileLogItem where
  "rev1 = \<lparr>depotFile = ''//depot/a.txt'', revision = ''1'', chnum = ''10'', operation = ''add'',
           date = None, user = ''ann'', description = ''first'', integrations = []\<rparr>"

definition shelvedFile :: DepotFileOperation where
  "shelvedFile = \<lparr>depotPath = ''//depot/b.txt'', fileRevision = ''4'', fileOperation = ''edit''\<rparr>"

definition change30 :: DescribedChangelist where
  "change30 = \<lparr>dcChnum = ''30'', dcUser = ''ann'', dcDescription = [''third''], dcIsPending = True,
               dcDate = None, affectedFiles = [], shelvedFiles = [], fixedJobs = []\<rparr>"

definition change20 :: DescribedChangelist where
  "change20 = \<lparr>dcChnum = ''20'', dcUser = ''bob'', dcDescription = [''second''],
               dcIsPending = False, dcDate = None, affectedFiles = [], shelvedFiles = [],
               fixedJobs = []\<rparr>"

definition exampleDescribe :: "Uri \<Rightarrow> DescribeOptions \<Rightarrow> DescribedChangelist list" where
  "exampleDescribe u opts =
     (if chnums opts = [''30'']
      then [if shelved opts = Some True then change30\<lparr>shelvedFiles := [shelvedFile]\<rparr> else change30]
      else if chnums opts = [''20'']
      then [if shelved opts = Some True then change20\<lparr>shelvedFiles := [shelvedFile]\<rparr> else change20]
      else [])"

definition exampleClipPick :: "string \<Rightarrow> string \<Rightarrow> ActionableQuickPickItem" where
  "exampleClipPick n v =
     \<lparr>label = ''Copy '' @ n, itemDescription = Some v, detail = None,
      performAction = Some (CopyToClipboard v)\<rparr>"

definition exampleEnv :: Env where
  "exampleEnv =
     \<lparr>p4have = (\<lambda>u. None),
      p4getFileHistory = (\<lambda>u a f. [rev3, rev2, rev1]),
      p4describe = exampleDescribe,
      getRevOrAtLabel = revOfUri,
      fromUriWithRevision = (\<lambda>u r. takeWhile (\<lambda>c. c \<noteq> CHR ''#'') u @ (if r = [] then [] else ''#'' @ r)),
      fromDepotPath = (\<lambda>w f r. f @ ''#'' @ r),
      getUsableWorkspace = (\<lambda>u. None),
      fsPathWithoutRev = (\<lambda>u. takeWhile (\<lambda>c. c \<noteq> CHR ''#'') u),
      uriToString = (\<lambda>u. u),
      diffTitleForDepotPaths = (\<lambda>a b c d. a @ ''#'' @ b @ '' - '' @ c @ ''#'' @ d),
      makeClipPick = exampleClipPick,
      basename = (\<lambda>p. p),
      dateToString = (\<lambda>d. ''date''),
      getSwarmLink = (\<lambda>c. None),
      parseUri = (\<lambda>s. Some s),
      host = \<lparr>language = ''en'', toLocaleString = (\<lambda>d l opts. ''date'')\<rparr>\<rparr>"

definition changeA :: ChangeInfo where
  "changeA = \<lparr>ciChnum = ''30'', ciDescription = [''third''], ciUser = ''ann'', ciIsPending = True\<rparr>"

definition changeB :: ChangeInfo where
  "changeB = \<lparr>ciChnum = ''20'', ciDescription = [''second''], ciUser = ''bob'', ciIsPending = False\<rparr>"

text \<open>
  A tree built from a search that answers changelist 30 twice; its two children are the
  objects 0 and 1.
\<close>

definition exampleTree :: SearchResultTree where
  "exampleTree = fst (newSearchResultTree 0 ''a.txt'' [changeA, changeB, changeA] ''Results'')"

section \<open>Properties of the spec parser\<close>

lemma indexOf_ge: "- 1 \<le> indexOf s c"
  by (induction s) (auto simp: Let_def)

lemma indexOf_absent: "c \<notin> set s \<Longrightarrow> indexOf s c = - 1"
  by (induction s) (auto simp: Let_def)

lemma indexOf_present: "c \<in> set s \<Longrightarrow> indexOf s c = int (length (takeWhile (\<lambda>x. x \<noteq> c) s))"
  by (induction s) (auto simp: Let_def indexOf_absent)

lemma indexOf_le_length: "indexOf s c \<le> int (length s)"
  using indexOf_present [of c s] indexOf_absent [of c s] length_takeWhile_le [of "\<lambda>x. x \<noteq> c" s]
  by (cases "c \<in> set s") auto

lemma take_length_takeWhile: "take (length (takeWhile P s)) s = takeWhile P s"
  by (induction s) auto

lemma slice_to_colon:
  assumes "CHR '':'' \<in> set s"
  shows "slice s 0 (indexOf s (CHR '':'')) = beforeFirstColon s"
proof -
  let ?n = "length (takeWhile (\<lambda>x. x \<noteq> CHR '':'') s)"
  have i: "indexOf s (CHR '':'') = int ?n"
    using assms by (rule indexOf_present)
  have "?n \<le> length s"
    by (rule length_takeWhile_le)
  then have "slice s 0 (int ?n) = take ?n s"
    by (simp add: slice_def relativeIndex_def)
  also have "\<dots> = takeWhile (\<lambda>x. x \<noteq> CHR '':'') s"
    by (rule take_length_takeWhile)
  finally show ?thesis
    by (simp add: i beforeFirstColon_def)
qed

lemma sliceFrom_after_colon:
  assumes "CHR '':'' \<in> set s"
  shows "sliceFrom s (indexOf s (CHR '':'') + 2) = afterFirstColon s"
proof -
  let ?n = "length (takeWhile (\<lambda>x. x \<noteq> CHR '':'') s)"
  have i: "indexOf s (CHR '':'') = int ?n"
    using assms by (rule indexOf_present)
  have "relativeIndex (length s) (int ?n + 2) = min (?n + 2) (length s)"
    by (simp add: relativeIndex_def nat_add_distrib)
  then have "sliceFrom s (int ?n + 2) = drop (?n + 2) s"
    by (simp add: sliceFrom_def min_def)
  then show ?thesis
    by (simp add: i afterFirstColon_def beforeFirstColon_def)
qed

lemma parseRawFieldsEntry_colon:
  "CHR '':'' \<in> set s \<Longrightarrow> parseRawFieldsEntry cu s = fieldOfSection cu s"
  by (simp add: parseRawFieldsEntry_def fieldOfSection_def parseRawField_def Let_def
      slice_to_colon sliceFrom_after_colon)

lemma name_not_hash:
  assumes "s \<noteq> []" and "\<not> startsWith s ''#''"
  shows "\<not> startsWith (slice s 0 (indexOf s (CHR '':''))) ''#''"
proof -
  obtain c cs where s: "s = c # cs"
    using assms(1) by (cases s) auto
  have c: "c \<noteq> CHR ''#''"
    using assms(2) by (simp add: s startsWith_def)
  have "\<exists>k. slice s 0 (indexOf s (CHR '':'')) = take k s"
    by (auto simp: slice_def relativeIndex_def)
  then obtain k where "slice s 0 (indexOf s (CHR '':'')) = take k s" ..
  then show ?thesis
    using c by (cases k) (simp_all add: s startsWith_def)
qed

lemma joinLines_consHead: "joinLines (consHead c ls) = c # joinLines ls"
proof (cases ls)
  case Nil
  then show ?thesis by simp
next
  case (Cons l ls')
  then show ?thesis by (cases ls') simp_all
qed

lemma consHead_not_Nil: "consHead c ls \<noteq> []"
  by (cases ls) simp_all

lemma splitLines_not_Nil: "splitLines s \<noteq> []"
  by (cases s) (simp_all add: consHead_not_Nil)

lemma joinLines_Nil_Cons: "ls \<noteq> [] \<Longrightarrow> joinLines ([] # ls) = newline # joinLines ls"
  by (cases ls) simp_all

lemma joinLines_splitLines: "joinLines (splitLines s) = s"
  by (induction s) (simp_all add: joinLines_consHead joinLines_Nil_Cons splitLines_not_Nil)

lemma joinSections_consHead: "joinSections (consHead c ls) = c # joinSections ls"
proof (cases ls)
  case Nil
  then show ?thesis by simp
next
  case (Cons l ls')
  then show ?thesis by (cases ls') simp_all
qed

lemma splitSections_not_Nil: "splitSections s \<noteq> []"
  by (induction s rule: splitSections.induct) (simp_all add: consHead_not_Nil)

lemma joinSections_Nil_Cons:
  "ls \<noteq> [] \<Longrightarrow> joinSections ([] # ls) = newline # newline # joinSections ls"
  by (cases ls) simp_all

lemma joinSections_splitSections: "joinSections (splitSections s) = s"
  by (induction s rule: splitSections.induct)
    (simp_all add: joinSections_consHead joinSections_Nil_Cons splitSections_not_Nil)

lemma excludeNonFields_subseq: "subseq (excludeNonFields parts) parts"
  by (simp add: excludeNonFields_def)

lemma excludeNonFields_retained:
  "s \<in> set (excludeNonFields parts) \<Longrightarrow> s \<in> set parts \<and> s \<noteq> [] \<and> \<not> startsWith s ''#''"
  by (simp add: excludeNonFields_def)

lemma splitSections_exampleSpec:
  "splitSections exampleSpec =
     [''# A changelist spec'',
      ''Change:'' @ [tab] @ ''42'',
      ''Description:'' @ [newline, tab] @ ''fix it'' @ [newline, tab] @ ''now'',
      []]"
  by (simp add: exampleSpec_def newline_def tab_def)

lemma excludeNonFields_exampleSpec:
  "excludeNonFields (splitSections exampleSpec) =
     [''Change:'' @ [tab] @ ''42'',
      ''Description:'' @ [newline, tab] @ ''fix it'' @ [newline, tab] @ ''now'']"
  by (simp add: splitSections_exampleSpec excludeNonFields_def startsWith_def)

lemma fieldOfSection_exampleSpec:
  "map (fieldOfSection commandUtils)
     [''Change:'' @ [tab] @ ''42'',
      ''Description:'' @ [newline, tab] @ ''fix it'' @ [newline, tab] @ ''now''] =
   [\<lparr>name = ''Change'', valueLines = [''42'']\<rparr>,
    \<lparr>name = ''Description'', valueLines = [''fix it'', ''now'']\<rparr>]"
  by (simp add: fieldOfSection_def beforeFirstColon_def afterFirstColon_def commandUtils_def
      newline_def tab_def)

subsection \<open>Claims about the spec parser\<close>

text \<open>
  C1, as amended. For every input in which each retained section contains a colon,
  \<open>parseSpecOutput\<close> returns one field per retained section, in the words of the spec:
  the name of the field is the text of the section before its first colon, and the
  value is the text that starts two characters after that colon, passed through
  \<open>removeLeadingNewline\<close>, \<open>splitIntoLines\<close> and \<open>removeIndent\<close>. This holds for every
  implementation of the four helpers.
\<close>

theorem parseSpecOutput_fields:
  assumes "\<forall>s \<in> set (excludeNonFields (splitIntoSections cu v)). CHR '':'' \<in> set s"
  shows "parseSpecOutput cu v =
           map (fieldOfSection cu) (excludeNonFields (splitIntoSections cu v))
         \<and> length (parseSpecOutput cu v) =
           length (excludeNonFields (splitIntoSections cu v))"
  using assms
  by (simp add: parseSpecOutput_def parseRawFields_def parseRawFieldsEntry_colon)

theorem parseSpecOutput_fields_witness:
  "parseSpecOutput commandUtils exampleSpec =
     [\<lparr>name = ''Change'', valueLines = [''42'']\<rparr>,
      \<lparr>name = ''Description'', valueLines = [''fix it'', ''now'']\<rparr>]"
proof -
  have sec: "splitIntoSections commandUtils exampleSpec = splitSections exampleSpec"
    by (simp add: commandUtils_def)
  have "\<forall>s \<in> set (excludeNonFields (splitIntoSections commandUtils exampleSpec)).
          CHR '':'' \<in> set s"
    by (simp add: sec excludeNonFields_exampleSpec)
  from parseSpecOutput_fields [OF this] show ?thesis
    by (simp only: sec excludeNonFields_exampleSpec fieldOfSection_exampleSpec)
qed

text \<open>
  C1 as stated, for every input string, fails on a retained section that has no colon:
  \<open>indexOf\<close> answers \<open>-1\<close> there, so the name is the section without its last
  character and the value is cut from the section without its first character,
  where the text before the first colon is the whole section.
\<close>

theorem parseSpecOutput_fields_counterexample:
  "parseSpecOutput commandUtils ''ab'' = [\<lparr>name = ''a'', valueLines = [''b'']\<rparr>]
   \<and> map (fieldOfSection commandUtils)
        (excludeNonFields (splitIntoSections commandUtils ''ab'')) =
      [\<lparr>name = ''ab'', valueLines = [[]]\<rparr>]
   \<and> parseSpecOutput commandUtils ''ab'' \<noteq>
      map (fieldOfSection commandUtils)
        (excludeNonFields (splitIntoSections commandUtils ''ab''))"
  by (simp add: parseSpecOutput_def commandUtils_def parseRawFields_def excludeNonFields_def
      startsWith_def parseRawFieldsEntry_def parseRawField_def slice_def sliceFrom_def
      relativeIndex_def newline_def tab_def fieldOfSection_def beforeFirstColon_def
      afterFirstColon_def)

text \<open>
  C7. The fields of the result are the images, in order, of the retained sections, and
  the retained sections are a subsequence of the sections of the input (for every
  implementation of the helpers). With the helpers as the spec describes them, the
  sections, joined by empty lines in the order of the list, are the input text, and the
  value of a field is the list of the lines of the field's text with the indentation
  of each line removed, and these lines, joined by line feeds in the order of the list,
  are the field's text again.
\<close>

theorem parseSpecOutput_order:
  "parseSpecOutput cu v =
     map (parseRawFieldsEntry cu) (excludeNonFields (splitIntoSections cu v))
   \<and> subseq (excludeNonFields (splitIntoSections cu v)) (splitIntoSections cu v)
   \<and> joinSections (splitIntoSections commandUtils v) = v
   \<and> valueLines (parseRawFieldsEntry commandUtils s) =
       map removeIndentLine
         (splitLines (dropLeadingNewline (sliceFrom s (indexOf s (CHR '':'') + 2))))
   \<and> joinLines (splitLines (dropLeadingNewline (sliceFrom s (indexOf s (CHR '':'') + 2)))) =
       dropLeadingNewline (sliceFrom s (indexOf s (CHR '':'') + 2))"
  by (simp add: parseSpecOutput_def parseRawFields_def excludeNonFields_subseq
      parseRawFieldsEntry_def parseRawField_def commandUtils_def joinLines_splitLines Let_def
      joinSections_splitSections)

text \<open>
  C8. Every field of the result is the image of a section of the input that is neither
  empty nor starts with \<open>#\<close>, the sections handed to the field parser are exactly the
  sections that are neither, and no field of the result has a name that starts with
  \<open>#\<close>. This holds for every input and every implementation of the helpers.
\<close>

theorem parseSpecOutput_excludes_non_fields:
  "parseSpecOutput cu v = parseRawFields cu (excludeNonFields (splitIntoSections cu v))
   \<and> set (excludeNonFields (splitIntoSections cu v)) =
       {s \<in> set (splitIntoSections cu v). s \<noteq> [] \<and> \<not> startsWith s ''#''}
   \<and> (\<forall>f \<in> set (parseSpecOutput cu v).
         \<not> startsWith (name f) ''#''
         \<and> (\<exists>s \<in> set (splitIntoSections cu v).
               s \<noteq> [] \<and> \<not> startsWith s ''#'' \<and> f = parseRawFieldsEntry cu s))"
proof (intro conjI ballI)
  show "parseSpecOutput cu v = parseRawFields cu (excludeNonFields (splitIntoSections cu v))"
    by (simp add: parseSpecOutput_def)
  show "set (excludeNonFields (splitIntoSections cu v)) =
          {s \<in> set (splitIntoSections cu v). s \<noteq> [] \<and> \<not> startsWith s ''#''}"
    by (auto simp: excludeNonFields_def)
next
  fix f
  assume "f \<in> set (parseSpecOutput cu v)"
  then obtain s where s: "s \<in> set (excludeNonFields (splitIntoSections cu v))"
    and f: "f = parseRawFieldsEntry cu s"
    by (auto simp: parseSpecOutput_def parseRawFields_def)
  from s have r: "s \<in> set (splitIntoSections cu v)" "s \<noteq> []" "\<not> startsWith s ''#''"
    using excludeNonFields_retained by blast+
  show "\<not> startsWith (name f) ''#''"
    using name_not_hash [OF r(2) r(3)] by (simp add: f parseRawFieldsEntry_def Let_def)
  show "\<exists>s \<in> set (splitIntoSections cu v).
          s \<noteq> [] \<and> \<not> startsWith s ''#'' \<and> f = parseRawFieldsEntry cu s"
    using r f by blast
qed

theorem parseSpecOutput_excludes_non_fields_witness:
  "splitIntoSections commandUtils exampleSpec =
     [''# A changelist spec'',
      ''Change:'' @ [tab] @ ''42'',
      ''Description:'' @ [newline, tab] @ ''fix it'' @ [newline, tab] @ ''now'',
      []]
   \<and> map name (parseSpecOutput commandUtils exampleSpec) = [''Change'', ''Description'']
   \<and> \<not> startsWith ''Change'' ''#'' \<and> \<not> startsWith ''Description'' ''#''"
proof -
  have sec: "splitIntoSections commandUtils exampleSpec = splitSections exampleSpec"
    by (simp add: commandUtils_def)
  have ev: "parseSpecOutput commandUtils exampleSpec =
      [parseRawFieldsEntry commandUtils (''Change:'' @ [tab] @ ''42''),
       parseRawFieldsEntry commandUtils
         (''Description:'' @ [newline, tab] @ ''fix it'' @ [newline, tab] @ ''now'')]"
    by (simp only: parseSpecOutput_def sec excludeNonFields_exampleSpec parseRawFields_def
        list.map)
  have nm: "map name (parseSpecOutput commandUtils exampleSpec) = [''Change'', ''Description'']"
    by (simp add: ev parseRawFieldsEntry_def slice_def relativeIndex_def newline_def tab_def)
  from parseSpecOutput_excludes_non_fields [of commandUtils exampleSpec]
  have "\<forall>f \<in> set (parseSpecOutput commandUtils exampleSpec). \<not> startsWith (name f) ''#''"
    by blast
  then have "\<forall>n \<in> set (map name (parseSpecOutput commandUtils exampleSpec)).
      \<not> startsWith n ''#''"
    by simp
  then have "\<not> startsWith ''Change'' ''#'' \<and> \<not> startsWith ''Description'' ''#''"
    unfolding nm by simp
  then show ?thesis
    using nm sec splitSections_exampleSpec by simp
qed

section \<open>Properties of the date formatter\<close>

text \<open>
  C10. Both formatters answer \<open>???\<close> for an absent date. For a date, both hand it to
  \<open>toLocaleString\<close> with the language of the editor; \<open>toReadableDateTime\<close> asks for the
  week day, year, month, day, hour and minute, \<open>toReadableDate\<close> for the week day, year,
  month and day only.
\<close>

theorem toReadable_formats:
  "toReadableDateTime h None = ''???''
   \<and> toReadableDate h None = ''???''
   \<and> toReadableDateTime h (Some d) =
       toLocaleString h d (language h)
         \<lparr>weekday = Some ''long'', year = Some ''numeric'', month = Some ''long'',
          day = Some ''numeric'', hour = Some ''numeric'', minute = Some ''numeric''\<rparr>
   \<and> toReadableDate h (Some d) =
       toLocaleString h d (language h)
         \<lparr>weekday = Some ''long'', year = Some ''numeric'', month = Some ''long'',
          day = Some ''numeric'', hour = None, minute = None\<rparr>"
  by (simp add: toReadableDateTime_def toReadableDate_def)

section \<open>Properties of the file quick pick\<close>

lemma findIndex_none: "\<forall>x \<in> set xs. \<not> P x \<Longrightarrow> findIndex P xs = - 1"
  by (induction xs) (auto simp: Let_def)

lemma findIndex_first:
  "\<forall>x \<in> set pre. \<not> P x \<Longrightarrow> P c \<Longrightarrow> findIndex P (pre @ c # post) = int (length pre)"
  by (induction pre) (auto simp: Let_def)

lemma elementAt_middle: "elementAt (pre @ c # post) (int (length pre)) = Some c"
  by (simp add: elementAt_def)

lemma elementAt_before:
  "elementAt (pre @ c # post) (int (length pre) - 1) =
     (if pre = [] then None else Some (last pre))"
proof (cases pre rule: rev_cases)
  case Nil
  then show ?thesis by (simp add: elementAt_def)
next
  case (snoc ys y)
  then show ?thesis by (simp add: elementAt_def nth_append)
qed

lemma elementAt_after:
  "elementAt (pre @ c # post) (int (length pre) + 1) =
     (case post of [] \<Rightarrow> None | p # ps \<Rightarrow> Some p)"
proof (cases post)
  case Nil
  then show ?thesis by (simp add: elementAt_def)
next
  case (Cons p ps)
  have "nat (int (length pre) + 1) = Suc (length pre)"
    by simp
  then show ?thesis
    using Cons by (simp add: elementAt_def nth_append)
qed

lemma elementAt_first: "elementAt (pre @ c # post) 0 = Some (hd (pre @ [c]))"
  by (cases pre) (simp_all add: elementAt_def)

lemma elementAt_negative: "i < 0 \<Longrightarrow> elementAt xs i = None"
  by (simp add: elementAt_def)

lemma elementAt_zero: "xs \<noteq> [] \<Longrightarrow> elementAt xs 0 = Some (hd xs)"
  by (cases xs) (simp_all add: elementAt_def)

text \<open>
  A history that has an entry with the revision splits at the first such entry.
\<close>

lemma history_splits:
  assumes "e \<in> set filelog" and "revision e = rv"
  shows "\<exists>pre c post. filelog = pre @ c # post \<and> revision c = rv
           \<and> (\<forall>x \<in> set pre. revision x \<noteq> rv)"
proof -
  have "\<exists>x \<in> set filelog. revision x = rv"
    using assms by blast
  then show ?thesis
    by (auto dest!: split_list_first_prop)
qed

text \<open>
  C2. Where a revision is resolved and the history (fetched, or taken from the cache)
  has an entry with that revision, \<open>c\<close> being the first such entry, \<open>getChangeDetails\<close>
  returns the details in which \<open>current\<close> is \<open>c\<close>, \<open>next\<close> is the entry before it and
  \<open>prev\<close> the entry after it (absent at the ends of the list), \<open>latest\<close> is the first
  entry and \<open>all\<close> is the whole history. The pointers are functions of the history
  and the revision of this call alone.
\<close>

theorem getChangeDetails_pointers:
  assumes "usedRev env uri cached = Some rv" and "rv \<noteq> []"
    and "usedFilelog env uri cached followBranches = pre @ c # post"
    and "revision c = rv" and "\<forall>x \<in> set pre. revision x \<noteq> rv"
  shows "getChangeDetails env uri cached followBranches =
           Inr \<lparr>cdAll = pre @ c # post,
                cdCurrent = Some c,
                cdCurrentIndex = int (length pre),
                cdNext = (if pre = [] then None else Some (last pre)),
                cdPrev = (case post of [] \<Rightarrow> None | p # ps \<Rightarrow> Some p),
                cdLatest = Some (hd (pre @ [c])),
                cdHaveFile = usedHaveFile env uri cached\<rparr>"
proof -
  have i: "findIndex (\<lambda>x. revision x = rv) (pre @ c # post) = int (length pre)"
    using assms(4,5) by (intro findIndex_first) auto
  show ?thesis
    using assms(1,2,3)
    by (simp add: getChangeDetails_def falsy_def Let_def i elementAt_middle elementAt_before
        elementAt_after elementAt_first del: findIndex.simps)
qed

theorem getChangeDetails_pointers_witness:
  "getChangeDetails exampleEnv ''a.txt#2'' None None =
     Inr \<lparr>cdAll = [rev3, rev2, rev1], cdCurrent = Some rev2, cdCurrentIndex = 1,
          cdNext = Some rev3, cdPrev = Some rev1, cdLatest = Some rev3, cdHaveFile = None\<rparr>"
proof -
  have r: "usedRev exampleEnv ''a.txt#2'' None = Some ''2''"
    by (simp add: usedRev_def usedHaveFile_def exampleEnv_def revOfUri_def parseIntIsNaN_def
        isWhiteSpace_def isDecimalDigit_def)
  have l: "usedFilelog exampleEnv ''a.txt#2'' None None = [rev3] @ rev2 # [rev1]"
    by (simp add: usedFilelog_def exampleEnv_def)
  have h: "usedHaveFile exampleEnv ''a.txt#2'' None = None"
    by (simp add: usedHaveFile_def exampleEnv_def)
  have c: "revision rev2 = ''2''" and p: "\<forall>x \<in> set [rev3]. revision x \<noteq> ''2''"
    by (simp_all add: rev2_def rev3_def)
  have n: "''2'' \<noteq> []"
    by simp
  from getChangeDetails_pointers [OF r n l c p] show ?thesis
    by (simp add: h)
qed

text \<open>
  The condition of C3 in the words of the claim: no revision can be resolved when the
  revision label of the URI is absent, empty or not read as a number by \<open>parseInt\<close>, and
  the have record is absent or has an empty revision.
\<close>

lemma usedRev_falsy:
  "falsy (usedRev env uri cached) =
     ((case getRevOrAtLabel env uri of None \<Rightarrow> True | Some r \<Rightarrow> r = [] \<or> parseIntIsNaN r)
      \<and> (case usedHaveFile env uri cached of None \<Rightarrow> True | Some h \<Rightarrow> haveRevision h = []))"
  by (auto simp: usedRev_def falsy_def Let_def split: option.splits)

text \<open>
  C3. With the answers of the CLI given, \<open>getChangeDetails\<close> throws exactly when no
  revision can be resolved or the history is empty. When a revision is resolved and the
  history is not empty but has no entry with that revision, it returns details in
  which \<open>current\<close> is absent and \<open>currentIndex\<close> is \<open>-1\<close>.
\<close>

theorem getChangeDetails_throws:
  "((\<exists>e. getChangeDetails env uri cached followBranches = Inl e) =
      (((case getRevOrAtLabel env uri of None \<Rightarrow> True | Some r \<Rightarrow> r = [] \<or> parseIntIsNaN r)
        \<and> (case usedHaveFile env uri cached of None \<Rightarrow> True | Some h \<Rightarrow> haveRevision h = []))
       \<or> usedFilelog env uri cached followBranches = []))
   \<and> (\<not> falsy (usedRev env uri cached)
        \<and> usedFilelog env uri cached followBranches \<noteq> []
        \<and> (\<forall>x \<in> set (usedFilelog env uri cached followBranches).
              Some (revision x) \<noteq> usedRev env uri cached)
       \<longrightarrow> (\<exists>d. getChangeDetails env uri cached followBranches = Inr d
                 \<and> cdCurrent d = None \<and> cdCurrentIndex d = - 1
                 \<and> cdAll d = usedFilelog env uri cached followBranches))"
proof (intro conjI impI)
  show "(\<exists>e. getChangeDetails env uri cached followBranches = Inl e) =
      (((case getRevOrAtLabel env uri of None \<Rightarrow> True | Some r \<Rightarrow> r = [] \<or> parseIntIsNaN r)
        \<and> (case usedHaveFile env uri cached of None \<Rightarrow> True | Some h \<Rightarrow> haveRevision h = []))
       \<or> usedFilelog env uri cached followBranches = [])"
    unfolding usedRev_falsy [symmetric]
    by (simp add: getChangeDetails_def Let_def del: findIndex.simps)
next
  assume a: "\<not> falsy (usedRev env uri cached)
        \<and> usedFilelog env uri cached followBranches \<noteq> []
        \<and> (\<forall>x \<in> set (usedFilelog env uri cached followBranches).
              Some (revision x) \<noteq> usedRev env uri cached)"
  then have i: "findIndex (\<lambda>x. Some (revision x) = usedRev env uri cached)
      (usedFilelog env uri cached followBranches) = - 1"
    by (intro findIndex_none) simp
  show "\<exists>d. getChangeDetails env uri cached followBranches = Inr d
          \<and> cdCurrent d = None \<and> cdCurrentIndex d = - 1
          \<and> cdAll d = usedFilelog env uri cached followBranches"
    using a by (simp add: getChangeDetails_def Let_def i elementAt_negative del: findIndex.simps)
qed

theorem getChangeDetails_throws_witness:
  "(\<exists>d. getChangeDetails exampleEnv ''a.txt#7'' None None = Inr d
        \<and> cdCurrent d = None \<and> cdCurrentIndex d = - 1 \<and> cdAll d = [rev3, rev2, rev1])
   \<and> (\<exists>e. getChangeDetails exampleEnv ''a.txt'' None None = Inl e)"
proof -
  have r: "usedRev exampleEnv ''a.txt#7'' None = Some ''7''"
    by (simp add: usedRev_def usedHaveFile_def exampleEnv_def revOfUri_def parseIntIsNaN_def
        isWhiteSpace_def isDecimalDigit_def)
  have l: "usedFilelog exampleEnv ''a.txt#7'' None None = [rev3, rev2, rev1]"
    by (simp add: usedFilelog_def exampleEnv_def)
  have "\<not> falsy (usedRev exampleEnv ''a.txt#7'' None)
        \<and> usedFilelog exampleEnv ''a.txt#7'' None None \<noteq> []
        \<and> (\<forall>x \<in> set (usedFilelog exampleEnv ''a.txt#7'' None None).
              Some (revision x) \<noteq> usedRev exampleEnv ''a.txt#7'' None)"
    by (simp add: r l falsy_def rev1_def rev2_def rev3_def)
  with getChangeDetails_throws [of exampleEnv "''a.txt#7''" None None]
  have first: "\<exists>d. getChangeDetails exampleEnv ''a.txt#7'' None None = Inr d
        \<and> cdCurrent d = None \<and> cdCurrentIndex d = - 1 \<and> cdAll d = [rev3, rev2, rev1]"
    by (simp add: l)
  have "getRevOrAtLabel exampleEnv ''a.txt'' = None"
    and "usedHaveFile exampleEnv ''a.txt'' None = None"
    by (simp_all add: exampleEnv_def revOfUri_def usedHaveFile_def)
  with getChangeDetails_throws [of exampleEnv "''a.txt''" None None]
  have "\<exists>e. getChangeDetails exampleEnv ''a.txt'' None None = Inl e"
    by simp
  with first show ?thesis
    by blast
qed

text \<open>
  The file quick pick where the history has the revision: the actions are the next and
  previous picks, the clipboard picks, the sync picks, the diff picks and the changelist
  picks, in this order, and the place holder is the summary of the current revision.
\<close>

lemma fileQuickPick_actions:
  assumes "getChangeDetails env uri cached None = Inr changes"
    and "cdCurrent changes = Some current" and "cdLatest changes \<noteq> None"
  shows "\<exists>navPicks clipPicks syncPicks diffPicks changelistPicks.
           makeNextAndPrevPicks env uri changes = Inr navPicks
           \<and> makeClipboardPicks env uri changes = Inr clipPicks
           \<and> makeSyncPicks env uri changes = Inr syncPicks
           \<and> makeDiffPicks env uri changes = Inr diffPicks
           \<and> makeChangelistPicks env uri changes = Inr changelistPicks
           \<and> fileQuickPickProvider_provideActions env uri cached =
               Inr \<lparr>items = navPicks @ clipPicks @ syncPicks @ diffPicks @ changelistPicks,
                    placeHolder = makeRevisionSummary env current,
                    recentKey = Some (''file:'' @ fsPathWithoutRev env uri)\<rparr>"
proof -
  obtain l where l: "cdLatest changes = Some l"
    using assms(3) by blast
  have "\<exists>navPicks. makeNextAndPrevPicks env uri changes = Inr navPicks"
    by (simp add: makeNextAndPrevPicks_def assms(2) Let_def)
  moreover have "\<exists>clipPicks. makeClipboardPicks env uri changes = Inr clipPicks"
    by (simp add: makeClipboardPicks_def assms(2))
  moreover have "\<exists>syncPicks. makeSyncPicks env uri changes = Inr syncPicks"
    by (simp add: makeSyncPicks_def assms(2))
  moreover have "\<exists>diffPicks. makeDiffPicks env uri changes = Inr diffPicks"
    by (simp add: makeDiffPicks_def assms(2) l Let_def)
  moreover have "\<exists>changelistPicks. makeChangelistPicks env uri changes = Inr changelistPicks"
    by (simp add: makeChangelistPicks_def assms(2))
  ultimately show ?thesis
    using assms(1,2) by (auto simp: fileQuickPickProvider_provideActions_def)
qed

text \<open>
  C9 fails on the code where the history has no entry with the revision of the URI:
  \<open>getChangeDetails\<close> returns details without a current revision, and the provider
  throws on the first read of \<open>changes.current\<close> instead of returning a list.
\<close>

theorem fileQuickPick_missing_revision:
  "getChangeDetails exampleEnv ''a.txt#7'' None None =
     Inr \<lparr>cdAll = [rev3, rev2, rev1], cdCurrent = None, cdCurrentIndex = - 1,
          cdNext = None, cdPrev = Some rev3, cdLatest = Some rev3, cdHaveFile = None\<rparr>
   \<and> fileQuickPickProvider_provideActions exampleEnv ''a.txt#7'' None = Inl TypeError"
proof -
  have r: "usedRev exampleEnv ''a.txt#7'' None = Some ''7''"
    by (simp add: usedRev_def usedHaveFile_def exampleEnv_def revOfUri_def parseIntIsNaN_def
        isWhiteSpace_def isDecimalDigit_def)
  have l: "usedFilelog exampleEnv ''a.txt#7'' None None = [rev3, rev2, rev1]"
    by (simp add: usedFilelog_def exampleEnv_def)
  have h: "usedHaveFile exampleEnv ''a.txt#7'' None = None"
    by (simp add: usedHaveFile_def exampleEnv_def)
  have i: "findIndex (\<lambda>c. revision c = ''7'') [rev3, rev2, rev1] = - 1"
    by (simp add: rev1_def rev2_def rev3_def)
  have d: "getChangeDetails exampleEnv ''a.txt#7'' None None =
     Inr \<lparr>cdAll = [rev3, rev2, rev1], cdCurrent = None, cdCurrentIndex = - 1,
          cdNext = None, cdPrev = Some rev3, cdLatest = Some rev3, cdHaveFile = None\<rparr>"
    by (simp add: getChangeDetails_def r l h i falsy_def elementAt_def Let_def
        del: findIndex.simps)
  show ?thesis
    by (simp add: d fileQuickPickProvider_provideActions_def makeNextAndPrevPicks_def)
qed

section \<open>Properties of the changelist quick pick\<close>

lemma startsWith_Nil: "startsWith s [] = True"
  by (simp add: startsWith_def)

lemma startsWith_Cons: "startsWith (c # s) (d # p) = (c = d \<and> startsWith s p)"
  by (auto simp: startsWith_def)

lemma startsWith_empty: "startsWith [] (d # p) = False"
  by (simp add: startsWith_def)

lemma repeat_nbsp_3: "repeat nbsp 3 = [CHR 0xA0, CHR 0xA0, CHR 0xA0]"
  by (simp add: repeat_def nbsp_def numeral_3_eq_3)

lemmas pick_simps = startsWith_Nil startsWith_Cons startsWith_empty repeat_nbsp_3
  isUnshelvePick_def isShelvedFilePick_def

lemma makeUnshelvePicks_all: "\<forall>i \<in> set (makeUnshelvePicks uri sc). isUnshelvePick i"
  by (cases sc) (simp_all add: makeUnshelvePicks_def isUnshelvePick_def)

lemma makeUnshelvePicks_empty:
  "(makeUnshelvePicks uri sc = []) = (case sc of None \<Rightarrow> True | Some c \<Rightarrow> shelvedFiles c = [])"
  by (cases sc) (simp_all add: makeUnshelvePicks_def)

lemma makeShelvedFilePicks_all:
  "\<forall>i \<in> set (makeShelvedFilePicks env uri sc). isShelvedFilePick i"
  by (cases sc) (auto simp: makeShelvedFilePicks_def pick_simps)

lemma makeShelvedFilePicks_empty:
  "(makeShelvedFilePicks env uri sc = []) =
     (case sc of None \<Rightarrow> True | Some c \<Rightarrow> shelvedFiles c = [])"
  by (cases sc) (simp_all add: makeShelvedFilePicks_def)

lemma makeUnshelvePicks_not_shelved:
  "\<forall>i \<in> set (makeUnshelvePicks uri sc). \<not> isShelvedFilePick i"
  by (cases sc) (simp_all add: makeUnshelvePicks_def pick_simps)

lemma makeShelvedFilePicks_not_unshelve:
  "\<forall>i \<in> set (makeShelvedFilePicks env uri sc). \<not> isUnshelvePick i"
  by (cases sc) (auto simp: makeShelvedFilePicks_def pick_simps)

lemma makeFocusPick_other:
  "\<forall>i \<in> set (makeFocusPick resource change). \<not> isUnshelvePick i \<and> \<not> isShelvedFilePick i"
  by (simp add: makeFocusPick_def pick_simps)

lemma makeSwarmPick_other:
  "\<forall>i \<in> set (makeSwarmPick env change). \<not> isUnshelvePick i \<and> \<not> isShelvedFilePick i"
proof (cases "getSwarmLink env (dcChnum change)")
  case None
  then show ?thesis by (simp add: makeSwarmPick_def)
next
  case (Some a)
  then show ?thesis
    by (cases "parseUri env a") (simp_all add: makeSwarmPick_def pick_simps)
qed

lemma makeEditPicks_other:
  "\<forall>i \<in> set (makeEditPicks resource change). \<not> isUnshelvePick i \<and> \<not> isShelvedFilePick i"
  by (simp add: makeEditPicks_def pick_simps)

lemma makeJobPicks_other:
  "\<forall>i \<in> set (makeJobPicks resource change). \<not> isUnshelvePick i \<and> \<not> isShelvedFilePick i"
  by (auto simp: makeJobPicks_def pick_simps)

lemma makeFilePicks_other:
  "\<forall>i \<in> set (makeFilePicks env resource change). \<not> isUnshelvePick i \<and> \<not> isShelvedFilePick i"
  by (auto simp: makeFilePicks_def pick_simps)

lemma makeChangeClipboardPicks_other:
  assumes "\<forall>n v. \<not> isUnshelvePick (makeClipPick env n v) \<and> \<not> isShelvedFilePick (makeClipPick env n v)"
  shows "\<forall>i \<in> set (makeChangeClipboardPicks env resource change).
           \<not> isUnshelvePick i \<and> \<not> isShelvedFilePick i"
  using assms by (simp add: makeChangeClipboardPicks_def)

lemma elementAt_0: "elementAt xs 0 = (case xs of [] \<Rightarrow> None | x # r \<Rightarrow> Some x)"
  by (cases xs) (simp_all add: elementAt_def)

lemma filter_none: "\<forall>i \<in> set xs. \<not> P i \<Longrightarrow> filter P xs = []"
  by (induction xs) simp_all

lemma filter_all: "\<forall>i \<in> set xs. P i \<Longrightarrow> filter P xs = xs"
  by (induction xs) simp_all

lemma makeUnshelvePicks_listed:
  "shelvedFiles sc \<noteq> [] \<Longrightarrow>
   makeUnshelvePicks uri (Some sc) =
     [\<lparr>label = ''$(cloud-download) Unshelve changelist...'',
       itemDescription = Some ''Unshelve into a selected changelist'',
       detail = None,
       performAction = Some (ShowUnshelveQuickPick uri (dcChnum sc))\<rparr>,
      \<lparr>label = ''$(cloud-download) Unshelve via branch mapping...'',
       itemDescription = Some ''Unshelve, mapping through a branch spec'',
       detail = None,
       performAction = Some (UnshelveViaBranchMapping uri (dcChnum sc))\<rparr>]"
  by (simp add: makeUnshelvePicks_def)

lemma makeShelvedFilePicks_listed:
  "shelvedFiles sc \<noteq> [] \<Longrightarrow>
   makeShelvedFilePicks env uri (Some sc) =
     \<lparr>label = ''Shelved files: '' @ showNat (length (shelvedFiles sc)),
      itemDescription = None,
      detail = None,
      performAction = None\<rparr> #
     map (\<lambda>f.
            \<lparr>label = repeat nbsp 3 @ ''$('' @ getOperationIcon (fileOperation f) @ '')'' @
                     '' '' @ depotPath f @ ''#'' @ fileRevision f,
             itemDescription = Some (fileOperation f),
             detail = None,
             performAction = Some (ShowQuickPickForShelvedFile
               (usableWorkspaceOr env uri) f sc)\<rparr>)
       (shelvedFiles sc)"
  by (simp add: makeShelvedFilePicks_def)

lemma picks_other_describe:
  "makeSwarmPick (env\<lparr>p4describe := d\<rparr>) change = makeSwarmPick env change"
  "makeChangeClipboardPicks (env\<lparr>p4describe := d\<rparr>) resource change =
     makeChangeClipboardPicks env resource change"
  "makeFilePicks (env\<lparr>p4describe := d\<rparr>) resource change = makeFilePicks env resource change"
  "makeShelvedFilePicks (env\<lparr>p4describe := d\<rparr>) resource sc =
     makeShelvedFilePicks env resource sc"
  by (simp_all add: makeSwarmPick_def makeChangeClipboardPicks_def makeFilePicks_def
      makeShelvedFilePicks_def usableWorkspaceOr_def split: option.split)

text \<open>
  C4. For a change that the CLI describes, the provider asks the CLI for the shelved
  description only when the change is pending: the calls it makes are the describe
  call and, for a pending change only, the shelved describe call, and for a submitted
  change its result is the same whatever the CLI would answer to the shelved describe
  call. Where the clipboard picks of \<open>qp.makeClipPick\<close> are no unshelve and no
  shelved-file picks, the unshelve picks of the returned list are the two picks
  (unshelve, and unshelve through a branch mapping) of the shelved description when it
  exists and lists a shelved file, and none otherwise; the shelved-file picks of the
  returned list are then the heading with the number of shelved files followed by one
  pick per shelved file, in order, and none otherwise. For a submitted change the list
  has neither.
\<close>

theorem changeQuickPick_shelved:
  assumes d: "p4describe env resource (describeOptions cn) = change # rest"
    and clip: "\<forall>n v. \<not> isUnshelvePick (makeClipPick env n v)
                 \<and> \<not> isShelvedFilePick (makeClipPick env n v)"
  shows "fst (changeQuickPickProvider_provideActions env resource cn) =
           (if dcIsPending change
            then [(resource, describeOptions cn), (resource, shelvedDescribeOptions cn)]
            else [(resource, describeOptions cn)])
         \<and> (\<not> dcIsPending change \<longrightarrow>
              snd (changeQuickPickProvider_provideActions
                     (env\<lparr>p4describe := \<lambda>r opts.
                        if opts = shelvedDescribeOptions cn then answer
                        else p4describe env r opts\<rparr>) resource cn) =
              snd (changeQuickPickProvider_provideActions env resource cn))
         \<and> (\<exists>qp. snd (changeQuickPickProvider_provideActions env resource cn) = Inr qp
               \<and> filter isUnshelvePick (items qp) =
                   (if shelvedListed env resource cn change
                    then (case p4describe env resource (shelvedDescribeOptions cn) of
                            [] \<Rightarrow> []
                          | sc # others \<Rightarrow>
                              [\<lparr>label = ''$(cloud-download) Unshelve changelist...'',
                                itemDescription = Some ''Unshelve into a selected changelist'',
                                detail = None,
                                performAction = Some (ShowUnshelveQuickPick resource (dcChnum sc))\<rparr>,
                               \<lparr>label = ''$(cloud-download) Unshelve via branch mapping...'',
                                itemDescription = Some ''Unshelve, mapping through a branch spec'',
                                detail = None,
                                performAction =
                                  Some (UnshelveViaBranchMapping resource (dcChnum sc))\<rparr>])
                    else [])
               \<and> filter isShelvedFilePick (items qp) =
                   (if shelvedListed env resource cn change
                    then (case p4describe env resource (shelvedDescribeOptions cn) of
                            [] \<Rightarrow> []
                          | sc # others \<Rightarrow>
                              \<lparr>label = ''Shelved files: '' @ showNat (length (shelvedFiles sc)),
                               itemDescription = None,
                               detail = None,
                               performAction = None\<rparr> #
                              map (\<lambda>f.
                                     \<lparr>label = repeat nbsp 3 @ ''$('' @
                                        getOperationIcon (fileOperation f) @ '')'' @ '' '' @
                                        depotPath f @ ''#'' @ fileRevision f,
                                      itemDescription = Some (fileOperation f),
                                      detail = None,
                                      performAction = Some (ShowQuickPickForShelvedFile
                                        (usableWorkspaceOr env resource) f sc)\<rparr>)
                                (shelvedFiles sc))
                    else [])
               \<and> (\<not> dcIsPending change \<longrightarrow>
                    filter isUnshelvePick (items qp) = []
                    \<and> filter isShelvedFilePick (items qp) = []))"
proof -
  define sc where
    "sc = elementAt (if dcIsPending change
                     then p4describe env resource (shelvedDescribeOptions cn) else []) 0"
  define its where
    "its = makeFocusPick resource change @ makeSwarmPick env change @
           makeChangeClipboardPicks env resource change @ makeEditPicks resource change @
           makeUnshelvePicks resource sc @ makeJobPicks resource change @
           makeFilePicks env resource change @ makeShelvedFilePicks env resource sc"
  have calls: "fst (changeQuickPickProvider_provideActions env resource cn) =
           (if dcIsPending change
            then [(resource, describeOptions cn), (resource, shelvedDescribeOptions cn)]
            else [(resource, describeOptions cn)])"
    by (simp add: changeQuickPickProvider_provideActions_def d Let_def)
  have ne: "describeOptions cn \<noteq> shelvedDescribeOptions cn"
    by (simp add: describeOptions_def shelvedDescribeOptions_def)
  have indep: "\<not> dcIsPending change \<longrightarrow>
              snd (changeQuickPickProvider_provideActions
                     (env\<lparr>p4describe := \<lambda>r opts.
                        if opts = shelvedDescribeOptions cn then answer
                        else p4describe env r opts\<rparr>) resource cn) =
              snd (changeQuickPickProvider_provideActions env resource cn)"
    using ne
    by (simp add: changeQuickPickProvider_provideActions_def d Let_def picks_other_describe)
  have "\<exists>ph. snd (changeQuickPickProvider_provideActions env resource cn) =
          Inr \<lparr>items = its, placeHolder = ph, recentKey = None\<rparr>"
    by (simp add: changeQuickPickProvider_provideActions_def d Let_def its_def sc_def)
  then obtain ph where run: "snd (changeQuickPickProvider_provideActions env resource cn) =
          Inr \<lparr>items = its, placeHolder = ph, recentKey = None\<rparr>" ..
  have fu: "filter isUnshelvePick its = makeUnshelvePicks resource sc"
    unfolding its_def filter_append
    using makeFocusPick_other [of resource change] makeSwarmPick_other [of env change]
      makeChangeClipboardPicks_other [OF clip, of resource change]
      makeEditPicks_other [of resource change] makeJobPicks_other [of resource change]
      makeFilePicks_other [of env resource change]
      makeShelvedFilePicks_not_unshelve [of env resource sc]
      makeUnshelvePicks_all [of resource sc]
    by (simp add: filter_none filter_all)
  have fs: "filter isShelvedFilePick its = makeShelvedFilePicks env resource sc"
    unfolding its_def filter_append
    using makeFocusPick_other [of resource change] makeSwarmPick_other [of env change]
      makeChangeClipboardPicks_other [OF clip, of resource change]
      makeEditPicks_other [of resource change] makeJobPicks_other [of resource change]
      makeFilePicks_other [of env resource change]
      makeUnshelvePicks_not_shelved [of resource sc]
      makeShelvedFilePicks_all [of env resource sc]
    by (simp add: filter_none filter_all)
  show ?thesis
  proof (cases "shelvedListed env resource cn change")
    case True
    then obtain c others where
      p: "dcIsPending change"
      and a: "p4describe env resource (shelvedDescribeOptions cn) = c # others"
      and f: "shelvedFiles c \<noteq> []"
      by (auto simp: shelvedListed_def split: list.splits)
    have "sc = Some c"
      by (simp add: sc_def p a elementAt_def)
    then show ?thesis
      using calls indep run fu fs True p a f
      by (simp add: makeUnshelvePicks_listed makeShelvedFilePicks_listed)
  next
    case False
    then have "case sc of None \<Rightarrow> True | Some c \<Rightarrow> shelvedFiles c = []"
      by (auto simp: shelvedListed_def sc_def elementAt_0 split: list.splits if_splits)
    then have "makeUnshelvePicks resource sc = []" "makeShelvedFilePicks env resource sc = []"
      by (simp_all add: makeUnshelvePicks_empty makeShelvedFilePicks_empty)
    then show ?thesis
      using calls indep run fu fs False by simp
  qed
qed


lemma showNat_one: "showNat (Suc 0) = ''1''"
  by code_simp

theorem changeQuickPick_shelved_witness:
  "fst (changeQuickPickProvider_provideActions exampleEnv ''a.txt'' ''30'') =
     [(''a.txt'', describeOptions ''30''), (''a.txt'', shelvedDescribeOptions ''30'')]
   \<and> fst (changeQuickPickProvider_provideActions exampleEnv ''a.txt'' ''20'') =
     [(''a.txt'', describeOptions ''20'')]
   \<and> (\<exists>qp. snd (changeQuickPickProvider_provideActions exampleEnv ''a.txt'' ''30'') = Inr qp
         \<and> filter isUnshelvePick (items qp) =
             [\<lparr>label = ''$(cloud-download) Unshelve changelist...'',
               itemDescription = Some ''Unshelve into a selected changelist'',
               detail = None,
               performAction = Some (ShowUnshelveQuickPick ''a.txt'' ''30'')\<rparr>,
              \<lparr>label = ''$(cloud-download) Unshelve via branch mapping...'',
               itemDescription = Some ''Unshelve, mapping through a branch spec'',
               detail = None,
               performAction = Some (UnshelveViaBranchMapping ''a.txt'' ''30'')\<rparr>]
         \<and> filter isShelvedFilePick (items qp) =
             [\<lparr>label = ''Shelved files: 1'',
               itemDescription = None,
               detail = None,
               performAction = None\<rparr>,
              \<lparr>label = [CHR 0xA0, CHR 0xA0, CHR 0xA0] @ ''$(diff-modified) //depot/b.txt#4'',
               itemDescription = Some ''edit'',
               detail = None,
               performAction = Some (ShowQuickPickForShelvedFile ''a.txt'' shelvedFile
                 (change30\<lparr>shelvedFiles := [shelvedFile]\<rparr>))\<rparr>])
   \<and> (\<exists>qp. snd (changeQuickPickProvider_provideActions exampleEnv ''a.txt'' ''20'') = Inr qp
         \<and> filter isUnshelvePick (items qp) = []
         \<and> filter isShelvedFilePick (items qp) = [])"
proof -
  have clip: "\<forall>n v. \<not> isUnshelvePick (makeClipPick exampleEnv n v)
                 \<and> \<not> isShelvedFilePick (makeClipPick exampleEnv n v)"
    by (simp add: exampleEnv_def exampleClipPick_def pick_simps)
  have d30: "p4describe exampleEnv ''a.txt'' (describeOptions ''30'') = change30 # []"
    by (simp add: exampleEnv_def exampleDescribe_def describeOptions_def)
  have d20: "p4describe exampleEnv ''a.txt'' (describeOptions ''20'') = change20 # []"
    by (simp add: exampleEnv_def exampleDescribe_def describeOptions_def)
  have s30: "p4describe exampleEnv ''a.txt'' (shelvedDescribeOptions ''30'') =
      [change30\<lparr>shelvedFiles := [shelvedFile]\<rparr>]"
    by (simp add: exampleEnv_def exampleDescribe_def shelvedDescribeOptions_def)
  have l30: "shelvedListed exampleEnv ''a.txt'' ''30'' change30"
    by (simp add: shelvedListed_def s30) (simp add: change30_def)
  have l20: "\<not> shelvedListed exampleEnv ''a.txt'' ''20'' change20"
    by (simp add: shelvedListed_def change20_def)
  have p30: "dcIsPending change30" and p20: "\<not> dcIsPending change20"
    by (simp_all add: change30_def change20_def)
  have ws: "usableWorkspaceOr exampleEnv ''a.txt'' = ''a.txt''"
    by (simp add: usableWorkspaceOr_def exampleEnv_def)
  have cn: "dcChnum change30 = ''30''"
    by (simp add: change30_def)
  have a: "\<exists>qp. snd (changeQuickPickProvider_provideActions exampleEnv ''a.txt'' ''30'') = Inr qp
         \<and> filter isUnshelvePick (items qp) =
             [\<lparr>label = ''$(cloud-download) Unshelve changelist...'',
               itemDescription = Some ''Unshelve into a selected changelist'',
               detail = None,
               performAction = Some (ShowUnshelveQuickPick ''a.txt'' ''30'')\<rparr>,
              \<lparr>label = ''$(cloud-download) Unshelve via branch mapping...'',
               itemDescription = Some ''Unshelve, mapping through a branch spec'',
               detail = None,
               performAction = Some (UnshelveViaBranchMapping ''a.txt'' ''30'')\<rparr>]
         \<and> filter isShelvedFilePick (items qp) =
             [\<lparr>label = ''Shelved files: 1'',
               itemDescription = None,
               detail = None,
               performAction = None\<rparr>,
              \<lparr>label = [CHR 0xA0, CHR 0xA0, CHR 0xA0] @ ''$(diff-modified) //depot/b.txt#4'',
               itemDescription = Some ''edit'',
               detail = None,
               performAction = Some (ShowQuickPickForShelvedFile ''a.txt'' shelvedFile
                 (change30\<lparr>shelvedFiles := [shelvedFile]\<rparr>))\<rparr>]"
    using changeQuickPick_shelved [OF d30 clip, where answer = "[]"] l30
    by (auto simp: s30 ws cn showNat_one repeat_nbsp_3 getOperationIcon_def shelvedFile_def)
  have b: "\<exists>qp. snd (changeQuickPickProvider_provideActions exampleEnv ''a.txt'' ''20'') = Inr qp
         \<and> filter isUnshelvePick (items qp) = []
         \<and> filter isShelvedFilePick (items qp) = []"
    using changeQuickPick_shelved [OF d20 clip, where answer = "[]"] l20 by auto
  have c: "fst (changeQuickPickProvider_provideActions exampleEnv ''a.txt'' ''30'') =
     [(''a.txt'', describeOptions ''30''), (''a.txt'', shelvedDescribeOptions ''30'')]"
    using changeQuickPick_shelved [OF d30 clip, where answer = "[]"] p30 by simp
  have e: "fst (changeQuickPickProvider_provideActions exampleEnv ''a.txt'' ''20'') =
     [(''a.txt'', describeOptions ''20'')]"
    using changeQuickPick_shelved [OF d20 clip, where answer = "[]"] p20 by simp
  show ?thesis
    using a b c e by blast
qed

section \<open>Properties of the search result tree\<close>

lemma dedupeSeen_keys:
  "distinct (map key (dedupeSeen seen key xs))
   \<and> set (map key (dedupeSeen seen key xs)) = key ` set xs - set seen"
  by (induction xs arbitrary: seen) auto

lemma dedupe_distinct: "distinct (map key (dedupe xs key))"
  by (simp add: dedupe_def dedupeSeen_keys)

lemma dedupe_keys: "set (map key (dedupe xs key)) = key ` set xs"
  using dedupeSeen_keys [of key "[]" xs] by (simp add: dedupe_def)

lemma dedupeSeen_subseq: "subseq (dedupeSeen seen key xs) xs"
  by (induction xs arbitrary: seen) auto

lemma newItems_changes: "map itemChange (newItems fresh resource rs) = rs"
  by (induction rs arbitrary: fresh) (simp_all add: newSearchResultItem_def)

lemma newItems_ids: "map objectId (newItems fresh resource rs) = [fresh..<fresh + length rs]"
  by (induction rs arbitrary: fresh) (simp_all add: newSearchResultItem_def upt_rec)

lemma newItems_length: "length (newItems fresh resource rs) = length rs"
  by (induction rs arbitrary: fresh) simp_all

lemma newItems_fields:
  "c \<in> set (newItems fresh resource rs) \<Longrightarrow>
     itemChildren c = [] \<and> itemResource c = resource \<and> collapsibleState c = NoneState"
  by (induction rs arbitrary: fresh) (auto simp: newSearchResultItem_def)

lemma newItems_id_range:
  assumes "c \<in> set (newItems fresh resource rs)"
  shows "fresh \<le> objectId c \<and> objectId c < fresh + length rs"
proof -
  have "objectId c \<in> set (map objectId (newItems fresh resource rs))"
    using assms by simp
  then show ?thesis
    unfolding newItems_ids by simp
qed

lemma foldl_addChild: "foldl addChild t cs = t\<lparr>children := children t @ cs\<rparr>"
  by (induction cs arbitrary: t) (simp_all add: addChild_def)

lemma refresh_result:
  "refresh fresh t fetched =
     (t\<lparr>results := dedupe fetched ciChnum,
        children := newItems fresh (treeResource t) (dedupe fetched ciChnum)\<rparr>,
      fresh + length (dedupe fetched ciChnum))"
  by (simp add: refresh_def Let_def clearChildren_def foldl_addChild newItems_length)

lemma newSearchResultTree_result:
  "newSearchResultTree fresh resource rs lbl =
     (\<lparr>treeLabel = lbl, treeResource = resource, isPinned = False,
       results = dedupe rs ciChnum,
       children = newItems fresh resource (dedupe rs ciChnum)\<rparr>,
      fresh + length (dedupe rs ciChnum))"
  by (simp add: newSearchResultTree_def Let_def foldl_addChild newItems_length)

lemma applyToChild_keeps:
  assumes "\<And>c d. g (f c d) = g c"
  shows "map g (applyToChild f cs d) = map g cs"
proof -
  have "map g (cs[i := f (cs ! i) d]) = map g cs" for i
  proof (cases "i < length cs")
    case True
    then show ?thesis
      by (simp add: map_update assms list_update_same_conv)
  next
    case False
    then show ?thesis by (simp add: list_update_beyond)
  qed
  then show ?thesis
    by (simp add: applyToChild_def Let_def del: findIndex.simps)
qed

lemma foldl_applyToChild_keeps:
  assumes "\<And>c d. g (f c d) = g c"
  shows "map g (foldl (applyToChild f) cs ds) = map g cs"
  by (induction ds arbitrary: cs) (simp_all add: applyToChild_keeps [of g f, OF assms])

lemma populateChangeDetails_keeps:
  "map itemChange (children (populateChangeDetails t ds)) = map itemChange (children t)"
  "map objectId (children (populateChangeDetails t ds)) = map objectId (children t)"
  "results (populateChangeDetails t ds) = results t"
  by (simp_all add: populateChangeDetails_def foldl_applyToChild_keeps addDetails_def)

lemma populateShelvedFiles_keeps:
  "map itemChange (children (populateShelvedFiles t ds)) = map itemChange (children t)"
  "map objectId (children (populateShelvedFiles t ds)) = map objectId (children t)"
  "results (populateShelvedFiles t ds) = results t"
  by (simp_all add: populateShelvedFiles_def foldl_applyToChild_keeps addShelvedFiles_def
      Let_def)

lemma ball_map_cong:
  assumes "map g xs = map g ys" and "\<forall>c \<in> set ys. P (g c)"
  shows "\<forall>c \<in> set xs. P (g c)"
proof -
  have eq: "g ` set xs = g ` set ys"
    using assms(1) by (metis set_map)
  show ?thesis
  proof
    fix c
    assume "c \<in> set xs"
    then have "g c \<in> g ` set ys"
      using eq by blast
    then obtain c' where "c' \<in> set ys" and "g c = g c'"
      by blast
    then show "P (g c)"
      using assms(2) by simp
  qed
qed

lemma treeInvariant_refresh: "treeInvariant (fst (refresh fresh t fetched))"
  by (simp add: refresh_result treeInvariant_def newItems_changes newItems_ids dedupe_distinct)

lemma treeInvariant_new: "treeInvariant (fst (newSearchResultTree fresh resource rs lbl))"
  by (simp add: newSearchResultTree_result treeInvariant_def newItems_changes newItems_ids
      dedupe_distinct)

text \<open>
  In every state of the tree the invariant holds, and the identity of every child is
  below the allocation counter.
\<close>

lemma reachable_invariant:
  "reachable t fresh \<Longrightarrow> treeInvariant t \<and> (\<forall>c \<in> set (children t). objectId c < fresh)"
proof (induction rule: reachable.induct)
  case (constructed fresh resource rs lbl t fresh')
  have "\<forall>c \<in> set (children t). objectId c < fresh'"
    using constructed newItems_id_range [of _ fresh resource "dedupe rs ciChnum"]
    by (auto simp: newSearchResultTree_result)
  then show ?case
    using constructed treeInvariant_new [of fresh resource rs lbl] by auto
next
  case (refreshed t fresh rs t' fresh')
  have "\<forall>c \<in> set (children t'). objectId c < fresh'"
    using refreshed(2) newItems_id_range [of _ fresh "treeResource t" "dedupe rs ciChnum"]
    by (auto simp: refresh_result)
  then show ?case
    using refreshed(2) treeInvariant_refresh [of fresh t rs] by auto
next
  case (populated t fresh ds)
  have "\<forall>c \<in> set (children (populateChangeDetails t ds)). objectId c < fresh"
  proof (rule ball_map_cong [where g = objectId and P = "\<lambda>i. i < fresh"])
    show "map objectId (children (populateChangeDetails t ds)) = map objectId (children t)"
      by (rule populateChangeDetails_keeps(2))
    show "\<forall>c \<in> set (children t). objectId c < fresh"
      using populated.IH by simp
  qed
  then show ?case
    using populated.IH by (simp add: treeInvariant_def populateChangeDetails_keeps)
next
  case (populatedShelved t fresh ds)
  have "\<forall>c \<in> set (children (populateShelvedFiles t ds)). objectId c < fresh"
  proof (rule ball_map_cong [where g = objectId and P = "\<lambda>i. i < fresh"])
    show "map objectId (children (populateShelvedFiles t ds)) = map objectId (children t)"
      by (rule populateShelvedFiles_keeps(2))
    show "\<forall>c \<in> set (children t). objectId c < fresh"
      using populatedShelved.IH by simp
  qed
  then show ?case
    using populatedShelved.IH by (simp add: treeInvariant_def populateShelvedFiles_keeps)
next
  case (pinned t fresh)
  then show ?case by (simp add: treeInvariant_def pin_def)
next
  case (unpinned t fresh)
  then show ?case by (simp add: treeInvariant_def unpin_def)
next
  case (allocated t fresh fresh')
  then show ?case by fastforce
qed

text \<open>
  C5. In a state where the identity of every child is below the allocation counter
  (every state of the tree is such a state), \<open>refresh\<close> with the results that the CLI
  answers stores the deduplicated results and leaves as children exactly one new item
  per deduplicated result, in order: one child per changelist number of the answer, each
  without children of its own, and none of them is a child from before the refresh.
\<close>

theorem refresh_replaces_children:
  assumes "\<forall>c \<in> set (children t). objectId c < fresh"
  shows "results (fst (refresh fresh t fetched)) = dedupe fetched ciChnum
         \<and> map itemChange (children (fst (refresh fresh t fetched))) = dedupe fetched ciChnum
         \<and> distinct (map (\<lambda>c. ciChnum (itemChange c)) (children (fst (refresh fresh t fetched))))
         \<and> set (map (\<lambda>c. ciChnum (itemChange c)) (children (fst (refresh fresh t fetched)))) =
             ciChnum ` set fetched
         \<and> distinct (map objectId (children (fst (refresh fresh t fetched))))
         \<and> set (map objectId (children (fst (refresh fresh t fetched))))
             \<inter> set (map objectId (children t)) = {}
         \<and> (\<forall>c \<in> set (children (fst (refresh fresh t fetched))). itemChildren c = [])"
proof -
  let ?cs = "children (fst (refresh fresh t fetched))"
  have cs: "?cs = newItems fresh (treeResource t) (dedupe fetched ciChnum)"
    by (simp add: refresh_result)
  have ch: "map itemChange ?cs = dedupe fetched ciChnum"
    by (simp add: cs newItems_changes)
  have keys: "map (\<lambda>c. ciChnum (itemChange c)) ?cs = map ciChnum (dedupe fetched ciChnum)"
    using ch by (metis (no_types, lifting) map_map comp_apply map_eq_conv)
  have ids: "map objectId ?cs = [fresh..<fresh + length (dedupe fetched ciChnum)]"
    by (simp add: cs newItems_ids)
  have old: "\<forall>i \<in> set (map objectId (children t)). i < fresh"
    using assms by simp
  have disj: "set (map objectId ?cs) \<inter> set (map objectId (children t)) = {}"
    unfolding ids using old by fastforce
  have empty: "\<forall>c \<in> set ?cs. itemChildren c = []"
    unfolding cs using newItems_fields by blast
  have res: "results (fst (refresh fresh t fetched)) = dedupe fetched ciChnum"
    by (simp add: refresh_result)
  have d1: "distinct (map (\<lambda>c. ciChnum (itemChange c)) ?cs)"
    unfolding keys by (rule dedupe_distinct)
  have k1: "set (map (\<lambda>c. ciChnum (itemChange c)) ?cs) = ciChnum ` set fetched"
    unfolding keys by (rule dedupe_keys)
  have d2: "distinct (map objectId ?cs)"
    unfolding ids by simp
  show ?thesis
    using res ch d1 k1 d2 disj empty by blast
qed

theorem refresh_replaces_children_witness:
  "map objectId (children exampleTree) = [0, 1]
   \<and> map itemChange (children (fst (refresh 2 exampleTree [changeB, changeB]))) = [changeB]
   \<and> set (map objectId (children (fst (refresh 2 exampleTree [changeB, changeB]))))
       \<inter> set (map objectId (children exampleTree)) = {}"
proof -
  have d: "dedupe [changeA, changeB, changeA] ciChnum = [changeA, changeB]"
    "dedupe [changeB, changeB] ciChnum = [changeB]"
    by (simp_all add: dedupe_def changeA_def changeB_def)
  have ids: "map objectId (children exampleTree) = [0, 1]"
    by (simp add: exampleTree_def newSearchResultTree_result d newSearchResultItem_def)
  have "\<forall>c \<in> set (children exampleTree). objectId c < 2"
    by (simp add: exampleTree_def newSearchResultTree_result d newSearchResultItem_def)
  from refresh_replaces_children [OF this, of "[changeB, changeB]"] show ?thesis
    using ids by (simp add: d)
qed

text \<open>
  C6. The tree that the constructor builds and the tree after a refresh, from any
  state, satisfy the invariant: the stored results are the deduplicated answer, with
  one entry per changelist number, and the children are one object per stored result,
  in order. The deduplicated list keeps the order and the changelist numbers of the
  answer.
\<close>

theorem tree_results_deduplicated:
  "treeInvariant (fst (newSearchResultTree fresh resource rs lbl))
   \<and> results (fst (newSearchResultTree fresh resource rs lbl)) = dedupe rs ciChnum
   \<and> treeInvariant (fst (refresh fresh' t fetched))
   \<and> results (fst (refresh fresh' t fetched)) = dedupe fetched ciChnum
   \<and> distinct (map ciChnum (dedupe fetched ciChnum))
   \<and> set (map ciChnum (dedupe fetched ciChnum)) = ciChnum ` set fetched
   \<and> subseq (dedupe fetched ciChnum) fetched"
  using treeInvariant_new [of fresh resource rs lbl] treeInvariant_refresh [of fresh' t fetched]
    dedupe_distinct [of ciChnum fetched] dedupe_keys [of ciChnum fetched]
    dedupeSeen_subseq [of "[]" ciChnum fetched]
  by (simp add: newSearchResultTree_result refresh_result dedupe_def del: set_map)


end
